theory Spec2Isabelle
  imports Complex_Main "HOL-Library.Multiset"
begin

section \<open>TauCalibrator: the per-event systematic fan-out of Root/TauCalibrator.cxx\<close>

text \<open>
  The algorithm class \<^verbatim>\<open>TauCalibrator\<close> retrieves a container of tau objects from the
  event store, and for every systematic variation of \<^verbatim>\<open>m_systList\<close> configures the
  smearing tool, makes a shallow copy of the container, corrects the copies, links them to
  their originals, builds a view over the copy and records copy, auxiliary store and view
  under variation-qualified keys. The theory embeds \<^verbatim>\<open>initialize\<close> and
  \<^verbatim>\<open>execute\<close> as functions over an explicit event store, tool state and message log.

  Transverse momenta are \<^typ>\<open>real\<close>: the code only compares them, and a NaN (for which
  the comparison of \<^verbatim>\<open>sort_pt\<close> is no ordering) is outside the model.
\<close>

subsection \<open>Status codes and messages\<close>

datatype StatusCode = SUCCESS | FAILURE

text \<open>\<^verbatim>\<open>CP::SystematicCode\<close> and \<^verbatim>\<open>CP::CorrectionCode\<close> of PATInterfaces.\<close>

datatype SystematicCode = SC_Unsupported | SC_Ok

datatype CorrectionCode = CC_Error | CC_OutOfValidityRange | CC_Ok

datatype MSG_Level = DEBUG | INFO | WARNING | ERROR

type_synonym Message = "MSG_Level \<times> string"

subsection \<open>Systematic variations and tau objects\<close>

text \<open>
  A \<^verbatim>\<open>CP::SystematicSet\<close>; the code reads its \<^verbatim>\<open>name()\<close> and hands it to the tool.
  The default-constructed set is the nominal (baseline) variation, whose name is empty.
\<close>

datatype SystematicSet = SystematicSet (name: string)

definition nominal :: SystematicSet where
  "nominal = SystematicSet []"

text \<open>
  An \<^verbatim>\<open>xAOD::TauJet\<close> as the code sees it: its kinematics, the link to its truth particle
  (read by \<^verbatim>\<open>xAOD::TauHelpers::getTruthParticle\<close>, null when absent) and the
  \<^verbatim>\<open>originalObjectLink\<close> decoration (an index into the original container).
\<close>

record TauJet =
  pt :: real
  eta :: real
  phi :: real
  mass :: real
  truthParticleLink :: "nat option"
  originalObjectLink :: "nat option"

definition getTruthParticle :: "TauJet \<Rightarrow> nat option" where
  "getTruthParticle tau = truthParticleLink tau"

text \<open>The four kinematic values of a tau.\<close>

definition p4 :: "TauJet \<Rightarrow> real \<times> real \<times> real \<times> real" where
  "p4 tau = (pt tau, eta tau, phi tau, mass tau)"

subsection \<open>The event store\<close>

text \<open>\<^verbatim>\<open>SG::OWN_ELEMENTS\<close> and \<^verbatim>\<open>SG::VIEW_ELEMENTS\<close> (line 208).\<close>

datatype OwnershipPolicy = OWN_ELEMENTS | VIEW_ELEMENTS

text \<open>
  What the store holds. A \<^verbatim>\<open>TauJetContainer\<close> carries its elements; a
  \<^verbatim>\<open>ConstDataVector\<close> created with \<^verbatim>\<open>SG::VIEW_ELEMENTS\<close> holds pointers to the elements
  of another container, here the positions of those elements in the owning shallow copy;
  the \<^verbatim>\<open>ShallowAuxContainer\<close> holds the data of the copies.
\<close>

datatype StoreObject =
    EventInfo
  | TauJetContainer OwnershipPolicy "TauJet list"
  | ShallowAuxContainer "TauJet list"
  | ConstDataVector OwnershipPolicy "nat list"
  | StringVector "string list"

type_synonym TStore = "string \<rightharpoonup> StoreObject"

text \<open>
  Modelled from the spec: the event store is a collaborator outside the sources. Section 6:
  ``retrieve by name'' fails if absent, ``record by name'' fails on a name collision. A
  typed retrieve also fails when the object under the key has another type.
\<close>

definition retrieve_EventInfo :: "TStore \<Rightarrow> string \<Rightarrow> StatusCode" where
  "retrieve_EventInfo st key = (case st key of Some EventInfo \<Rightarrow> SUCCESS | _ \<Rightarrow> FAILURE)"

definition retrieve_TauJetContainer ::
  "TStore \<Rightarrow> string \<Rightarrow> (OwnershipPolicy \<times> TauJet list) option" where
  "retrieve_TauJetContainer st key =
     (case st key of Some (TauJetContainer pol taus) \<Rightarrow> Some (pol, taus) | _ \<Rightarrow> None)"

definition record_obj :: "TStore \<Rightarrow> string \<Rightarrow> StoreObject \<Rightarrow> StatusCode \<times> TStore" where
  "record_obj st key obj =
     (if st key = None then (SUCCESS, st(key \<mapsto> obj)) else (FAILURE, st))"

subsection \<open>The smearing tool\<close>

text \<open>
  The \<^verbatim>\<open>TauAnalysisTools::TauSmearingTool\<close> behind \<^verbatim>\<open>m_tauSmearingTool_handle\<close> is a
  parameter: the outcome of setting a property and of retrieving the tool, its recommended
  systematics, the code with which it answers a request for a variation, and the correction
  it applies to one tau under a variation (a code and the tau as the tool leaves it). Its
  mutable state is the variation it is configured for. The correction is a function of the
  active variation and the tau: the tool is deterministic.
\<close>

record TauSmearingTool =
  setProperty :: "string \<Rightarrow> StatusCode"
  retrieve :: StatusCode
  recommendedSystematics :: "SystematicSet list"
  configure :: "SystematicSet \<Rightarrow> SystematicCode"
  correction :: "SystematicSet \<Rightarrow> TauJet \<Rightarrow> CorrectionCode \<times> TauJet"
  appliedSystematic :: SystematicSet

definition applySystematicVariation ::
  "TauSmearingTool \<Rightarrow> SystematicSet \<Rightarrow> SystematicCode \<times> TauSmearingTool" where
  "applySystematicVariation tt syst =
     (case configure tt syst of
        SC_Ok \<Rightarrow> (SC_Ok, tt\<lparr>appliedSystematic := syst\<rparr>)
      | SC_Unsupported \<Rightarrow> (SC_Unsupported, tt))"

definition applyCorrection :: "TauSmearingTool \<Rightarrow> TauJet \<Rightarrow> CorrectionCode \<times> TauJet" where
  "applyCorrection tt tau = correction tt (appliedSystematic tt) tau"

subsection \<open>Copying, linking, viewing, sorting\<close>

text \<open>
  Modelled from the spec: \<^verbatim>\<open>xAOD::shallowCopyContainer\<close> (section 6: ``copy a collection
  producing an owning copy + auxiliary store''; section 4.1 step 2: an independent, mutable
  copy of every object of the input). The copy has the values of the input; the auxiliary
  store is the data behind the copy and is written out when the pair is recorded.
\<close>

definition shallowCopyContainer :: "TauJet list \<Rightarrow> TauJet list" where
  "shallowCopyContainer inTaus = inTaus"

text \<open>
  Modelled from the spec: \<^verbatim>\<open>xAOD::setOriginalObjectLink\<close> (section 6: ``link a copy back
  to its original''; section 4.1 step 4: the link may fail). The spec does not say when it
  fails: here it answers false, leaving the copies as they are, when the two containers
  differ in size or the original is a view that does not own its elements; otherwise the
  copy at position \<open>i\<close> is linked to the original at position \<open>i\<close>.
\<close>

definition setOriginalObjectLink ::
  "OwnershipPolicy \<times> TauJet list \<Rightarrow> TauJet list \<Rightarrow> bool \<times> TauJet list" where
  "setOriginalObjectLink original copy =
     (if length (snd original) \<noteq> length copy \<or> fst original = VIEW_ELEMENTS
      then (False, copy)
      else (True, map (\<lambda>(i, tau). tau\<lparr>originalObjectLink := Some i\<rparr>)
                      (zip [0..<length copy] copy)))"

text \<open>
  Modelled from the spec: \<^verbatim>\<open>HelperFunctions::makeSubsetCont\<close> is not among the sources.
  Section 4.1 step 5 and the comment at line 237 (``save pointers in ConstDataVector with
  same order''): called as here, with no selection flag, it appends a pointer to every
  element of the input container to the output view, in order, and succeeds.
\<close>

definition makeSubsetCont :: "TauJet list \<Rightarrow> nat list \<Rightarrow> StatusCode \<times> nat list" where
  "makeSubsetCont intCont outCont = (SUCCESS, outCont @ [0..<length intCont])"

text \<open>
  Modelled from the spec: \<^verbatim>\<open>HelperFunctions::sort_pt\<close> is not among the sources. Section
  4.1 step 6: the comparison that orders by descending transverse momentum. Its arguments
  are pointers into the container \<open>cont\<close>.
\<close>

definition sort_pt :: "TauJet list \<Rightarrow> nat \<Rightarrow> nat \<Rightarrow> bool" where
  "sort_pt cont partA partB = (pt (cont ! partA) > pt (cont ! partB))"

text \<open>
  \<^verbatim>\<open>std::sort\<close> is a parameter of type \<open>std_sort\<close>: the C++ standard fixes what it
  guarantees, not the permutation it returns. For a comparison that is a strict weak
  ordering the result is a permutation of the range in which no element is ordered before
  one of its predecessors; the relative order of equivalent elements is not specified.
\<close>

type_synonym std_sort = "(nat \<Rightarrow> nat \<Rightarrow> bool) \<Rightarrow> nat list \<Rightarrow> nat list"

definition strict_weak_order :: "(nat \<Rightarrow> nat \<Rightarrow> bool) \<Rightarrow> bool" where
  "strict_weak_order cmp =
     ((\<forall>a. \<not> cmp a a) \<and> (\<forall>a b c. cmp a b \<and> cmp b c \<longrightarrow> cmp a c) \<and>
      (\<forall>a b c. \<not> cmp a b \<and> \<not> cmp b c \<longrightarrow> \<not> cmp a c))"

definition std_sort_contract :: "std_sort \<Rightarrow> bool" where
  "std_sort_contract srt =
     (\<forall>cmp xs. strict_weak_order cmp \<longrightarrow>
        mset (srt cmp xs) = mset xs \<and> sorted_wrt (\<lambda>a b. \<not> cmp b a) (srt cmp xs))"

text \<open>The elements a view points to.\<close>

definition deref :: "TauJet list \<Rightarrow> nat list \<Rightarrow> TauJet list" where
  "deref cont view = map (\<lambda>i. cont ! i) view"

subsection \<open>The algorithm's configuration and state\<close>

text \<open>
  The properties declared by the constructor, the members set by \<^verbatim>\<open>initialize\<close>, and the
  members inherited from \<^verbatim>\<open>xAH::Algorithm\<close> that the two functions read:
  \<^verbatim>\<open>m_name\<close>, \<^verbatim>\<open>m_systName\<close>, \<^verbatim>\<open>m_systVal\<close>, \<^verbatim>\<open>m_eventInfoContainerName\<close>, and the answer of
  \<^verbatim>\<open>isMC()\<close>, which is a configuration flag here.
\<close>

record TauCalibrator =
  m_name :: string
  m_inContainerName :: string
  m_outContainerName :: string
  m_RecommendationTag :: string
  m_applyMVATES :: bool
  m_applyCombinedTES :: bool
  m_setAFII :: bool
  m_sort :: bool
  m_inputAlgoSystNames :: string
  m_outputAlgoSystNames :: string
  m_writeSystToMetadata :: bool
  m_systName :: string
  m_systVal :: real
  m_eventInfoContainerName :: string
  m_isMC :: bool
  m_outAuxContainerName :: string
  m_outSCContainerName :: string
  m_outSCAuxContainerName :: string
  m_numEvent :: int
  m_numObject :: int
  m_systList :: "SystematicSet list"

definition isMC :: "TauCalibrator \<Rightarrow> bool" where
  "isMC alg = m_isMC alg"

text \<open>
  What the algorithm works on besides its own members: the tool, the event store, the
  messages printed at level WARNING or ERROR by the \<^verbatim>\<open>ANA_MSG\<close> calls (messages at
  DEBUG and INFO level, and what a failing \<^verbatim>\<open>ANA_CHECK\<close> prints, are not kept), and the
  systematics lists written to the metadata by \<^verbatim>\<open>writeSystematicsListHist\<close>.
\<close>

record Ctx =
  tool :: TauSmearingTool
  evtStore :: TStore
  msgs :: "Message list"
  metadata :: "(string \<times> string list) list"

definition ANA_MSG :: "MSG_Level \<Rightarrow> string \<Rightarrow> Ctx \<Rightarrow> Ctx" where
  "ANA_MSG lvl text c = c\<lparr>msgs := msgs c @ [(lvl, text)]\<rparr>"

subsection \<open>initialize\<close>

text \<open>
  Modelled from the spec: \<^verbatim>\<open>HelperFunctions::getListofSystematics\<close> is not among the
  sources. Section 4.1: the list is ``computed once at setup time from the correction
  tool's recommended set intersected with any user-restricted subset; must contain at
  least the implicit baseline entry''; with an empty \<^verbatim>\<open>m_systName\<close> the algorithm runs the
  nominal configuration only (lines 135 to 137). The spec does not say how the string
  \<^verbatim>\<open>m_systName\<close> and the value \<^verbatim>\<open>m_systVal\<close> select the subset: the test
  \<open>inSubset\<close> is a parameter.
\<close>

definition getListofSystematics ::
  "(string \<Rightarrow> real \<Rightarrow> SystematicSet \<Rightarrow> bool) \<Rightarrow> SystematicSet list \<Rightarrow> string \<Rightarrow> real \<Rightarrow>
   SystematicSet list" where
  "getListofSystematics inSubset inSysts systNames systVal =
     (if systNames = [] then [nominal]
      else nominal # filter (inSubset systNames systVal) inSysts)"

text \<open>
  Lines 80 to 153. \<^verbatim>\<open>ANA_CHECK\<close> returns FAILURE when the checked call does not
  succeed. \<^verbatim>\<open>writeSystematicsListHist\<close> of the base class is kept as an entry of
  \<open>metadata\<close>.
\<close>

definition initialize ::
  "(string \<Rightarrow> real \<Rightarrow> SystematicSet \<Rightarrow> bool) \<Rightarrow> TauCalibrator \<Rightarrow> Ctx \<Rightarrow>
   StatusCode \<times> TauCalibrator \<times> Ctx" where
  "initialize inSubset alg0 c =
     (let alg1 = alg0\<lparr>m_outAuxContainerName := m_outContainerName alg0 @ ''Aux.''\<rparr>;
          alg2 = alg1\<lparr>m_outSCContainerName := m_outContainerName alg1 @ ''ShallowCopy''\<rparr>;
          alg3 = alg2\<lparr>m_outSCAuxContainerName := m_outSCContainerName alg2 @ ''Aux.''\<rparr>
      in if m_inContainerName alg3 = []
         then (FAILURE, alg3, ANA_MSG ERROR ''InputContainer is empty!'' c)
         else
           let alg4 = alg3\<lparr>m_numEvent := 0, m_numObject := 0\<rparr> in
           if m_RecommendationTag alg4 \<noteq> [] \<and>
              setProperty (tool c) ''RecommendationTag'' \<noteq> SUCCESS
           then (FAILURE, alg4, c)
           else if setProperty (tool c) ''ApplyMVATES'' \<noteq> SUCCESS then (FAILURE, alg4, c)
           else if setProperty (tool c) ''ApplyCombinedTES'' \<noteq> SUCCESS then (FAILURE, alg4, c)
           else if retrieve (tool c) \<noteq> SUCCESS then (FAILURE, alg4, c)
           else
             let recSyst = recommendedSystematics (tool c);
                 alg5 = alg4\<lparr>m_systList :=
                          getListofSystematics inSubset recSyst (m_systName alg4) (m_systVal alg4)\<rparr>;
                 SystTausNames =
                   (if m_systName alg5 = [] then [] else map name (m_systList alg5))
             in (case record_obj (evtStore c) (''taus_Syst'' @ m_name alg5)
                       (StringVector SystTausNames) of
                  (FAILURE, _) \<Rightarrow> (FAILURE, alg5, c)
                | (SUCCESS, st) \<Rightarrow>
                   (let c1 = c\<lparr>evtStore := st\<rparr>;
                        c2 = (if m_writeSystToMetadata alg5
                              then c1\<lparr>metadata := metadata c1 @
                                     [(m_name alg5, map name (m_systList alg5))]\<rparr>
                              else c1)
                    in (SUCCESS, alg5, c2))))"

subsection \<open>execute\<close>

text \<open>
  The body of the calibration loop (lines 216 to 229) for one copied tau: the correction
  is applied only to a tau with a truth particle, and an Error code is answered with a
  warning; the tau stays as the tool left it.
\<close>

definition calibrate_tau :: "TauSmearingTool \<Rightarrow> TauJet \<Rightarrow> TauJet \<times> Message list" where
  "calibrate_tau tt tauSC =
     (case getTruthParticle tauSC of
        None \<Rightarrow> (tauSC, [])
      | Some _ \<Rightarrow>
          (case applyCorrection tt tauSC of
             (code, corrected) \<Rightarrow>
               (corrected,
                if code = CC_Error
                then [(WARNING, ''TauSmearingTool returned Error CorrectionCode'')]
                else [])))"

primrec calibration_loop :: "TauSmearingTool \<Rightarrow> TauJet list \<Rightarrow> TauJet list \<times> Message list" where
  "calibration_loop tt [] = ([], [])"
| "calibration_loop tt (tauSC # rest) =
     (case calibrate_tau tt tauSC of
        (tau', warn) \<Rightarrow>
          (case calibration_loop tt rest of
             (rest', warns) \<Rightarrow> (tau' # rest', warn @ warns)))"

text \<open>
  One iteration of the loop over \<^verbatim>\<open>m_systList\<close> (lines 185 to 259), but for the
  \<^verbatim>\<open>push_back\<close> of line 194, which \<open>execute_loop\<close> does.
\<close>

definition execute_syst ::
  "TauCalibrator \<Rightarrow> std_sort \<Rightarrow> OwnershipPolicy \<times> TauJet list \<Rightarrow> SystematicSet \<Rightarrow> Ctx \<Rightarrow>
   StatusCode \<times> Ctx" where
  "execute_syst alg srt inTaus syst_it c =
     (let outSCContainerName = m_outSCContainerName alg @ name syst_it;
          outSCAuxContainerName = m_outSCAuxContainerName alg @ name syst_it;
          outContainerName = m_outContainerName alg @ name syst_it
      in case applySystematicVariation (tool c) syst_it of
           (SC_Unsupported, tt) \<Rightarrow>
             (FAILURE,
              ANA_MSG ERROR (''Failed to configure TauSmearingTool for systematic '' @ name syst_it)
                (c\<lparr>tool := tt\<rparr>))
         | (SC_Ok, tt) \<Rightarrow>
            (let c1 = c\<lparr>tool := tt\<rparr>;
                 copied = shallowCopyContainer (snd inTaus);
                 emptyCDV = [];
                 calibrated = (if isMC alg then calibration_loop tt copied else (copied, []));
                 c2 = c1\<lparr>msgs := msgs c1 @ snd calibrated\<rparr>;
                 linked = setOriginalObjectLink inTaus (fst calibrated);
                 c3 = (if \<not> fst linked
                       then ANA_MSG ERROR
                              ''Failed to set original object links -- MET rebuilding cannot proceed.'' c2
                       else c2);
                 calibTausSC = snd linked
             in (case makeSubsetCont calibTausSC emptyCDV of
                   (FAILURE, _) \<Rightarrow> (FAILURE, c3)
                 | (SUCCESS, filled) \<Rightarrow>
                    (let calibTausCDV =
                          (if m_sort alg then srt (sort_pt calibTausSC) filled else filled)
                     in (case record_obj (evtStore c3) outSCContainerName
                              (TauJetContainer OWN_ELEMENTS calibTausSC) of
                         (FAILURE, _) \<Rightarrow> (FAILURE, c3)
                       | (SUCCESS, st1) \<Rightarrow>
                           (case record_obj st1 outSCAuxContainerName
                                   (ShallowAuxContainer calibTausSC) of
                              (FAILURE, _) \<Rightarrow> (FAILURE, c3\<lparr>evtStore := st1\<rparr>)
                            | (SUCCESS, st2) \<Rightarrow>
                                (case record_obj st2 outContainerName
                                        (ConstDataVector VIEW_ELEMENTS calibTausCDV) of
                                   (FAILURE, _) \<Rightarrow> (FAILURE, c3\<lparr>evtStore := st2\<rparr>)
                                 | (SUCCESS, st3) \<Rightarrow> (SUCCESS, c3\<lparr>evtStore := st3\<rparr>))))))))"

text \<open>
  The loop over \<^verbatim>\<open>m_systList\<close> (lines 183 to 261) with the vector of names it fills: a
  failing iteration leaves the loop, and the function, at once.
\<close>

fun execute_loop ::
  "TauCalibrator \<Rightarrow> std_sort \<Rightarrow> OwnershipPolicy \<times> TauJet list \<Rightarrow> SystematicSet list \<Rightarrow>
   string list \<Rightarrow> Ctx \<Rightarrow> StatusCode \<times> string list \<times> Ctx" where
  "execute_loop alg srt inTaus [] vecOutContainerNames c = (SUCCESS, vecOutContainerNames, c)"
| "execute_loop alg srt inTaus (syst_it # rest) vecOutContainerNames c =
     (case execute_syst alg srt inTaus syst_it c of
        (FAILURE, c') \<Rightarrow> (FAILURE, vecOutContainerNames @ [name syst_it], c')
      | (SUCCESS, c') \<Rightarrow>
          execute_loop alg srt inTaus rest (vecOutContainerNames @ [name syst_it]) c')"

text \<open>Lines 156 to 275.\<close>

definition execute :: "TauCalibrator \<Rightarrow> std_sort \<Rightarrow> Ctx \<Rightarrow> StatusCode \<times> TauCalibrator \<times> Ctx" where
  "execute alg0 srt c =
     (let alg = alg0\<lparr>m_numEvent := m_numEvent alg0 + 1\<rparr> in
      if retrieve_EventInfo (evtStore c) (m_eventInfoContainerName alg) \<noteq> SUCCESS
      then (FAILURE, alg, c)
      else if retrieve_EventInfo (evtStore c) (m_eventInfoContainerName alg) \<noteq> SUCCESS
      then (FAILURE, alg, c)
      else
       (case retrieve_TauJetContainer (evtStore c) (m_inContainerName alg) of
          None \<Rightarrow> (FAILURE, alg, c)
        | Some inTaus \<Rightarrow>
            (case execute_loop alg srt inTaus (m_systList alg) [] c of
               (FAILURE, _, c') \<Rightarrow> (FAILURE, alg, c')
             | (SUCCESS, vecOutContainerNames, c') \<Rightarrow>
                 (case record_obj (evtStore c') (m_outputAlgoSystNames alg)
                         (StringVector vecOutContainerNames) of
                    (FAILURE, _) \<Rightarrow> (FAILURE, alg, c')
                  | (SUCCESS, st) \<Rightarrow> (SUCCESS, alg, c'\<lparr>evtStore := st\<rparr>)))))"

subsection \<open>Derived quantities\<close>

text \<open>
  The keys one event publishes under, and what one iteration of the loop appends to the
  messages and puts into the store: the calibrated and linked copy, and the view over it.
  The three records of lines 252 to 259, each under \<^verbatim>\<open>ANA_CHECK\<close>, are \<open>record3\<close>.
\<close>

definition out_keys :: "TauCalibrator \<Rightarrow> SystematicSet list \<Rightarrow> string list" where
  "out_keys alg systs =
     concat (map (\<lambda>s. [m_outSCContainerName alg @ name s,
                         m_outSCAuxContainerName alg @ name s,
                         m_outContainerName alg @ name s]) systs)"

definition syst_msgs :: "TauCalibrator \<Rightarrow> TauSmearingTool \<Rightarrow> OwnershipPolicy \<times> TauJet list \<Rightarrow> SystematicSet \<Rightarrow> Message list" where
  "syst_msgs alg tt inTaus s =
     (if isMC alg then snd (calibration_loop (tt\<lparr>appliedSystematic := s\<rparr>) (snd inTaus)) else []) @
     (if fst inTaus = VIEW_ELEMENTS
      then [(ERROR, ''Failed to set original object links -- MET rebuilding cannot proceed.'')]
      else [])"

definition syst_copy :: "TauCalibrator \<Rightarrow> TauSmearingTool \<Rightarrow> OwnershipPolicy \<times> TauJet list \<Rightarrow> SystematicSet \<Rightarrow> TauJet list" where
  "syst_copy alg tt inTaus s =
     snd (setOriginalObjectLink inTaus
            (if isMC alg then fst (calibration_loop (tt\<lparr>appliedSystematic := s\<rparr>) (snd inTaus))
             else snd inTaus))"

definition syst_view :: "TauCalibrator \<Rightarrow> std_sort \<Rightarrow> TauJet list \<Rightarrow> nat list" where
  "syst_view alg srt sc =
     (if m_sort alg then srt (sort_pt sc) [0..<length sc] else [0..<length sc])"

definition record3 ::
  "Ctx \<Rightarrow> string \<Rightarrow> StoreObject \<Rightarrow> string \<Rightarrow> StoreObject \<Rightarrow> string \<Rightarrow> StoreObject \<Rightarrow> StatusCode \<times> Ctx" where
  "record3 c3 k1 o1 k2 o2 k3 o3 =
     (case record_obj (evtStore c3) k1 o1 of
        (FAILURE, _) \<Rightarrow> (FAILURE, c3)
      | (SUCCESS, st1) \<Rightarrow>
          (case record_obj st1 k2 o2 of
             (FAILURE, _) \<Rightarrow> (FAILURE, c3\<lparr>evtStore := st1\<rparr>)
           | (SUCCESS, st2) \<Rightarrow>
               (case record_obj st2 k3 o3 of
                  (FAILURE, _) \<Rightarrow> (FAILURE, c3\<lparr>evtStore := st2\<rparr>)
                | (SUCCESS, st3) \<Rightarrow> (SUCCESS, c3\<lparr>evtStore := st3\<rparr>))))"


subsection \<open>A concrete event\<close>

text \<open>
  Three taus, the second without a truth particle; a tool that knows the variations
  \<^verbatim>\<open>TAUS_TES_TOTAL_1up\<close> and \<^verbatim>\<open>TAUS_TES_TOTAL_1down\<close>, scales the transverse momentum
  under them, and answers Error below 25 GeV; the algorithm configured with the base name
  \<^verbatim>\<open>Out\<close>, simulation mode on and sorting off.
\<close>

definition ex_taus :: "TauJet list" where
  "ex_taus =
     [\<lparr>pt = 30000, eta = 1/2, phi = 1, mass = 1777,
       truthParticleLink = Some 0, originalObjectLink = None\<rparr>,
      \<lparr>pt = 45000, eta = -1, phi = 2, mass = 1777,
       truthParticleLink = None, originalObjectLink = None\<rparr>,
      \<lparr>pt = 20000, eta = 2, phi = 3, mass = 1777,
       truthParticleLink = Some 2, originalObjectLink = None\<rparr>]"

definition ex_correction :: "SystematicSet \<Rightarrow> TauJet \<Rightarrow> CorrectionCode \<times> TauJet" where
  "ex_correction s tau =
     (if pt tau < 25000 then (CC_Error, tau)
      else if name s = ''TAUS_TES_TOTAL_1up'' then (CC_Ok, tau\<lparr>pt := pt tau * 2\<rparr>)
      else if name s = ''TAUS_TES_TOTAL_1down'' then (CC_Ok, tau\<lparr>pt := pt tau / 2\<rparr>)
      else (CC_Ok, tau))"

definition ex_tool :: TauSmearingTool where
  "ex_tool =
     \<lparr>setProperty = (\<lambda>_. SUCCESS), retrieve = SUCCESS,
      recommendedSystematics =
        [SystematicSet ''TAUS_TES_TOTAL_1up'', SystematicSet ''TAUS_TES_TOTAL_1down''],
      configure = (\<lambda>s. if name s \<in> {[], ''TAUS_TES_TOTAL_1up'', ''TAUS_TES_TOTAL_1down''}
                        then SC_Ok else SC_Unsupported),
      correction = ex_correction,
      appliedSystematic = nominal\<rparr>"

definition ex_alg0 :: TauCalibrator where
  "ex_alg0 =
     \<lparr>m_name = ''TauCalib'', m_inContainerName = ''TauJets'', m_outContainerName = ''Out'',
      m_RecommendationTag = [], m_applyMVATES = False, m_applyCombinedTES = False,
      m_setAFII = False, m_sort = False, m_inputAlgoSystNames = [],
      m_outputAlgoSystNames = ''TauCalib_Syst'', m_writeSystToMetadata = False,
      m_systName = ''TAUS_TES_TOTAL_1up'', m_systVal = 0,
      m_eventInfoContainerName = ''EventInfo'', m_isMC = True,
      m_outAuxContainerName = [], m_outSCContainerName = [], m_outSCAuxContainerName = [],
      m_numEvent = 0, m_numObject = 0, m_systList = []\<rparr>"

definition ex_alg :: TauCalibrator where
  "ex_alg =
     ex_alg0\<lparr>m_outAuxContainerName := ''OutAux.'', m_outSCContainerName := ''OutShallowCopy'',
             m_outSCAuxContainerName := ''OutShallowCopyAux.'',
             m_systList := [nominal, SystematicSet ''TAUS_TES_TOTAL_1up'']\<rparr>"

definition ex_inSubset :: "string \<Rightarrow> real \<Rightarrow> SystematicSet \<Rightarrow> bool" where
  "ex_inSubset systNames systVal s = (name s = systNames)"

definition ex_store :: TStore where
  "ex_store = [''EventInfo'' \<mapsto> EventInfo, ''TauJets'' \<mapsto> TauJetContainer OWN_ELEMENTS ex_taus]"

definition ex_ctx :: Ctx where
  "ex_ctx = \<lparr>tool = ex_tool, evtStore = ex_store, msgs = [], metadata = []\<rparr>"

text \<open>
  An implementation of \<^verbatim>\<open>std::sort\<close> that keeps its contract: an insertion sort.
\<close>

fun insert_by :: "(nat \<Rightarrow> nat \<Rightarrow> bool) \<Rightarrow> nat \<Rightarrow> nat list \<Rightarrow> nat list" where
  "insert_by cmp x [] = [x]"
| "insert_by cmp x (y # ys) = (if cmp y x then y # insert_by cmp x ys else x # y # ys)"

definition insertion_sort :: std_sort where
  "insertion_sort cmp xs = foldr (insert_by cmp) xs []"

text \<open>The same algorithm with sorting requested.\<close>

definition ex_alg_sort :: TauCalibrator where
  "ex_alg_sort = ex_alg\<lparr>m_sort := True\<rparr>"

text \<open>Whether the store holds an owning tau container under a key.\<close>

definition is_owning_collection :: "StoreObject option \<Rightarrow> bool" where
  "is_owning_collection obj =
     (case obj of Some (TauJetContainer OWN_ELEMENTS _) \<Rightarrow> True | _ \<Rightarrow> False)"

text \<open>The event of \<open>ex_ctx\<close> without its tau container.\<close>

definition ex_ctx_missing :: Ctx where
  "ex_ctx_missing = ex_ctx\<lparr>evtStore := [''EventInfo'' \<mapsto> EventInfo]\<rparr>"

text \<open>
  The algorithm with a variation the tool does not know in second place, and with the key
  of the manifest equal to the key of the baseline's view.
\<close>

definition ex_alg_bad :: TauCalibrator where
  "ex_alg_bad =
     ex_alg\<lparr>m_outputAlgoSystNames := ''Out'',
            m_systList := [nominal, SystematicSet ''TAUS_UNKNOWN'',
                           SystematicSet ''TAUS_TES_TOTAL_1up'']\<rparr>"

text \<open>The event of \<open>ex_ctx\<close> with a tau container that does not own its elements.\<close>

definition ex_ctx_view :: Ctx where
  "ex_ctx_view = ex_ctx\<lparr>evtStore :=
      [''EventInfo'' \<mapsto> EventInfo, ''TauJets'' \<mapsto> TauJetContainer VIEW_ELEMENTS ex_taus]\<rparr>"

text \<open>The algorithm of \<open>ex_alg\<close> run on real data.\<close>

definition ex_alg_data :: TauCalibrator where
  "ex_alg_data = ex_alg\<lparr>m_isMC := False\<rparr>"

text \<open>
  A tool that accepts every variation, and whose correction sets the transverse momentum
  of the tau to zero and answers Error; the event of \<open>ex_ctx\<close> with this tool.
\<close>

definition ex_tool_err :: TauSmearingTool where
  "ex_tool_err =
     ex_tool\<lparr>configure := (\<lambda>s. SC_Ok),
             correction := (\<lambda>s tau. (CC_Error, tau\<lparr>pt := 0\<rparr>))\<rparr>"

definition ex_ctx_err :: Ctx where
  "ex_ctx_err = ex_ctx\<lparr>tool := ex_tool_err\<rparr>"

section \<open>Properties\<close>

subsection \<open>One iteration and the loop\<close>

lemma length_calibration_loop: "length (fst (calibration_loop tt taus)) = length taus"
  by (induction taus) (auto split: prod.splits)

lemma fst_link: "fst (setOriginalObjectLink inTaus (fst (calibration_loop tt (snd inTaus)))) = (fst inTaus \<noteq> VIEW_ELEMENTS)"
  by (simp add: setOriginalObjectLink_def length_calibration_loop)

lemma fst_link': "fst (setOriginalObjectLink inTaus (snd inTaus)) = (fst inTaus \<noteq> VIEW_ELEMENTS)"
  by (simp add: setOriginalObjectLink_def)

lemma execute_syst_Unsupported:
  "configure (tool c) s \<noteq> SC_Ok \<Longrightarrow>
   execute_syst alg srt inTaus s c =
     (FAILURE, ANA_MSG ERROR (''Failed to configure TauSmearingTool for systematic '' @ name s) c)"
  by (cases "configure (tool c) s") (simp_all add: execute_syst_def applySystematicVariation_def)

lemma record3_if:
  "record3 c3 k1 o1 k2 o2 k3 o3 =
     (if evtStore c3 k1 \<noteq> None then (FAILURE, c3)
      else if k2 = k1 \<or> evtStore c3 k2 \<noteq> None
      then (FAILURE, c3\<lparr>evtStore := (evtStore c3)(k1 \<mapsto> o1)\<rparr>)
      else if k3 = k1 \<or> k3 = k2 \<or> evtStore c3 k3 \<noteq> None
      then (FAILURE, c3\<lparr>evtStore := (evtStore c3)(k1 \<mapsto> o1, k2 \<mapsto> o2)\<rparr>)
      else (SUCCESS, c3\<lparr>evtStore := (evtStore c3)(k1 \<mapsto> o1, k2 \<mapsto> o2, k3 \<mapsto> o3)\<rparr>))"
  by (auto simp: record3_def record_obj_def)

lemma execute_syst_Ok:
  assumes "configure (tool c) s = SC_Ok"
  shows "execute_syst alg srt inTaus s c =
     record3 (c\<lparr>tool := (tool c)\<lparr>appliedSystematic := s\<rparr>,
                msgs := msgs c @ syst_msgs alg (tool c) inTaus s\<rparr>)
       (m_outSCContainerName alg @ name s)
       (TauJetContainer OWN_ELEMENTS (syst_copy alg (tool c) inTaus s))
       (m_outSCAuxContainerName alg @ name s)
       (ShallowAuxContainer (syst_copy alg (tool c) inTaus s))
       (m_outContainerName alg @ name s)
       (ConstDataVector VIEW_ELEMENTS (syst_view alg srt (syst_copy alg (tool c) inTaus s)))"
proof -
  have len: "length (syst_copy alg (tool c) inTaus s) = length (snd inTaus)"
    by (simp add: syst_copy_def setOriginalObjectLink_def length_calibration_loop)
  show ?thesis
    using assms
    by (cases "isMC alg"; cases "fst inTaus = VIEW_ELEMENTS"; cases "m_sort alg")
       (simp_all add: execute_syst_def applySystematicVariation_def Let_def shallowCopyContainer_def
            makeSubsetCont_def syst_copy_def syst_msgs_def syst_view_def ANA_MSG_def
            fst_link fst_link' record3_def split: prod.splits StatusCode.splits)
qed


lemma syst_copy_upd [simp]:
  "syst_copy alg (tt\<lparr>appliedSystematic := x\<rparr>) inTaus s = syst_copy alg tt inTaus s"
  by (simp add: syst_copy_def)

lemma syst_msgs_upd [simp]:
  "syst_msgs alg (tt\<lparr>appliedSystematic := x\<rparr>) inTaus s = syst_msgs alg tt inTaus s"
  by (simp add: syst_msgs_def)

lemma execute_syst_SUCCESS_D:
  assumes "execute_syst alg srt inTaus s c = (SUCCESS, c')"
  shows "configure (tool c) s = SC_Ok"
    and "evtStore c (m_outSCContainerName alg @ name s) = None"
    and "evtStore c (m_outSCAuxContainerName alg @ name s) = None"
    and "evtStore c (m_outContainerName alg @ name s) = None"
    and "distinct [m_outSCContainerName alg @ name s, m_outSCAuxContainerName alg @ name s,
                   m_outContainerName alg @ name s]"
    and "c' = c\<lparr>tool := (tool c)\<lparr>appliedSystematic := s\<rparr>,
                 msgs := msgs c @ syst_msgs alg (tool c) inTaus s,
                 evtStore := (evtStore c)
                   (m_outSCContainerName alg @ name s \<mapsto>
                      TauJetContainer OWN_ELEMENTS (syst_copy alg (tool c) inTaus s),
                    m_outSCAuxContainerName alg @ name s \<mapsto>
                      ShallowAuxContainer (syst_copy alg (tool c) inTaus s),
                    m_outContainerName alg @ name s \<mapsto>
                      ConstDataVector VIEW_ELEMENTS
                        (syst_view alg srt (syst_copy alg (tool c) inTaus s)))\<rparr>"
proof -
  show ok: "configure (tool c) s = SC_Ok"
    using assms execute_syst_Unsupported [of c s alg srt inTaus] by auto
  note eq = assms [unfolded execute_syst_Ok [OF ok] record3_if]
  show "evtStore c (m_outSCContainerName alg @ name s) = None"
    using eq by (simp split: if_splits)
  show "evtStore c (m_outSCAuxContainerName alg @ name s) = None"
    using eq by (simp split: if_splits)
  show "evtStore c (m_outContainerName alg @ name s) = None"
    using eq by (simp split: if_splits)
  show "distinct [m_outSCContainerName alg @ name s, m_outSCAuxContainerName alg @ name s,
                   m_outContainerName alg @ name s]"
    using eq by (simp split: if_splits) metis
  show "c' = c\<lparr>tool := (tool c)\<lparr>appliedSystematic := s\<rparr>,
                 msgs := msgs c @ syst_msgs alg (tool c) inTaus s,
                 evtStore := (evtStore c)
                   (m_outSCContainerName alg @ name s \<mapsto>
                      TauJetContainer OWN_ELEMENTS (syst_copy alg (tool c) inTaus s),
                    m_outSCAuxContainerName alg @ name s \<mapsto>
                      ShallowAuxContainer (syst_copy alg (tool c) inTaus s),
                    m_outContainerName alg @ name s \<mapsto>
                      ConstDataVector VIEW_ELEMENTS
                        (syst_view alg srt (syst_copy alg (tool c) inTaus s)))\<rparr>"
    using eq by (simp split: if_splits)
qed

lemma execute_syst_mono:
  "execute_syst alg srt inTaus s c = (st, c') \<Longrightarrow> evtStore c \<subseteq>\<^sub>m evtStore c'"
proof (cases "configure (tool c) s = SC_Ok")
  case False
  assume "execute_syst alg srt inTaus s c = (st, c')"
  with False show ?thesis
    by (auto simp: execute_syst_Unsupported ANA_MSG_def)
next
  case True
  assume "execute_syst alg srt inTaus s c = (st, c')"
  then show ?thesis
    unfolding execute_syst_Ok [OF True] record3_if
    by (auto simp: map_le_def split: if_splits)
qed

lemma execute_syst_tool:
  "execute_syst alg srt inTaus s c = (st, c') \<Longrightarrow>
   \<exists>x. tool c' = (tool c)\<lparr>appliedSystematic := x\<rparr>"
proof (cases "configure (tool c) s = SC_Ok")
  case False
  assume "execute_syst alg srt inTaus s c = (st, c')"
  with False have "tool c' = tool c"
    by (auto simp: execute_syst_Unsupported ANA_MSG_def)
  then show ?thesis
    by (intro exI [of _ "appliedSystematic (tool c)"]) simp
next
  case True
  assume "execute_syst alg srt inTaus s c = (st, c')"
  then have "tool c' = (tool c)\<lparr>appliedSystematic := s\<rparr>"
    unfolding execute_syst_Ok [OF True] record3_if
    by (auto split: if_splits)
  then show ?thesis ..
qed

lemma execute_loop_mono:
  "execute_loop alg srt inTaus L vec c = (st, vec', c') \<Longrightarrow> evtStore c \<subseteq>\<^sub>m evtStore c'"
proof (induction L arbitrary: vec c)
  case Nil
  then show ?case by simp
next
  case (Cons s L)
  obtain st1 c1 where b: "execute_syst alg srt inTaus s c = (st1, c1)"
    by (cases "execute_syst alg srt inTaus s c")
  have m1: "evtStore c \<subseteq>\<^sub>m evtStore c1" using b by (rule execute_syst_mono)
  show ?case
  proof (cases st1)
    case FAILURE
    with Cons.prems b have "c' = c1" by simp
    with m1 show ?thesis by simp
  next
    case SUCCESS
    with Cons.prems b have "execute_loop alg srt inTaus L (vec @ [name s]) c1 = (st, vec', c')"
      by simp
    then have "evtStore c1 \<subseteq>\<^sub>m evtStore c'" by (rule Cons.IH)
    with m1 show ?thesis by (rule map_le_trans)
  qed
qed

lemma execute_loop_SUCCESS:
  "execute_loop alg srt inTaus L vec c = (SUCCESS, vec', c') \<Longrightarrow>
     vec' = vec @ map name L \<and>
     (\<exists>x. tool c' = (tool c)\<lparr>appliedSystematic := x\<rparr>) \<and>
     msgs c' = msgs c @ concat (map (syst_msgs alg (tool c) inTaus) L) \<and>
     metadata c' = metadata c \<and>
     dom (evtStore c') = dom (evtStore c) \<union> set (out_keys alg L) \<and>
     distinct (out_keys alg L) \<and>
     set (out_keys alg L) \<inter> dom (evtStore c) = {} \<and>
     (\<forall>s\<in>set L.
        configure (tool c) s = SC_Ok \<and>
        evtStore c' (m_outSCContainerName alg @ name s) =
          Some (TauJetContainer OWN_ELEMENTS (syst_copy alg (tool c) inTaus s)) \<and>
        evtStore c' (m_outSCAuxContainerName alg @ name s) =
          Some (ShallowAuxContainer (syst_copy alg (tool c) inTaus s)) \<and>
        evtStore c' (m_outContainerName alg @ name s) =
          Some (ConstDataVector VIEW_ELEMENTS
                  (syst_view alg srt (syst_copy alg (tool c) inTaus s))))"
proof (induction L arbitrary: vec c)
  case Nil
  then have "c' = c" "vec' = vec" by simp_all
  moreover have "\<exists>x. tool c = (tool c)\<lparr>appliedSystematic := x\<rparr>"
    by (rule exI [of _ "appliedSystematic (tool c)"]) simp
  ultimately show ?case by (simp add: out_keys_def)
next
  case (Cons s L)
  obtain st1 c1 where b: "execute_syst alg srt inTaus s c = (st1, c1)"
    by (cases "execute_syst alg srt inTaus s c")
  with Cons.prems have st1: "st1 = SUCCESS" by (cases st1) simp_all
  note b = b [unfolded st1]
  note D = execute_syst_SUCCESS_D [OF b]
  have rest: "execute_loop alg srt inTaus L (vec @ [name s]) c1 = (SUCCESS, vec', c')"
    using Cons.prems b by simp
  note IH = Cons.IH [OF rest]
  have t1: "tool c1 = (tool c)\<lparr>appliedSystematic := s\<rparr>" using D(6) by simp
  have m1: "msgs c1 = msgs c @ syst_msgs alg (tool c) inTaus s" using D(6) by simp
  have md1: "metadata c1 = metadata c" using D(6) by simp
  have cf1: "configure (tool c1) = configure (tool c)" using t1 by simp
  have d1: "dom (evtStore c1) = dom (evtStore c) \<union>
      {m_outSCContainerName alg @ name s, m_outSCAuxContainerName alg @ name s,
       m_outContainerName alg @ name s}"
    using D(6) by auto
  have ok: "out_keys alg (s # L) =
      [m_outSCContainerName alg @ name s, m_outSCAuxContainerName alg @ name s,
       m_outContainerName alg @ name s] @ out_keys alg L"
    by (simp add: out_keys_def)
  have mono: "evtStore c1 \<subseteq>\<^sub>m evtStore c'" using rest by (rule execute_loop_mono)
  have heads: "evtStore c1 (m_outSCContainerName alg @ name s) =
          Some (TauJetContainer OWN_ELEMENTS (syst_copy alg (tool c) inTaus s))"
     "evtStore c1 (m_outSCAuxContainerName alg @ name s) =
          Some (ShallowAuxContainer (syst_copy alg (tool c) inTaus s))"
     "evtStore c1 (m_outContainerName alg @ name s) =
          Some (ConstDataVector VIEW_ELEMENTS
                  (syst_view alg srt (syst_copy alg (tool c) inTaus s)))"
    using D(5,6) by auto
  have heads': "evtStore c' (m_outSCContainerName alg @ name s) =
          Some (TauJetContainer OWN_ELEMENTS (syst_copy alg (tool c) inTaus s))"
     "evtStore c' (m_outSCAuxContainerName alg @ name s) =
          Some (ShallowAuxContainer (syst_copy alg (tool c) inTaus s))"
     "evtStore c' (m_outContainerName alg @ name s) =
          Some (ConstDataVector VIEW_ELEMENTS
                  (syst_view alg srt (syst_copy alg (tool c) inTaus s)))"
    using heads mono by (auto simp: map_le_def dom_def)
  have 1: "vec' = vec @ map name (s # L)" using IH by simp
  have 2: "\<exists>x. tool c' = (tool c)\<lparr>appliedSystematic := x\<rparr>"
  proof -
    from IH obtain x where "tool c' = (tool c1)\<lparr>appliedSystematic := x\<rparr>" by blast
    then have "tool c' = (tool c)\<lparr>appliedSystematic := x\<rparr>" by (simp add: t1)
    then show ?thesis ..
  qed
  have 3: "msgs c' = msgs c @ concat (map (syst_msgs alg (tool c) inTaus) (s # L))"
    using IH by (simp add: t1 m1)
  have 4: "metadata c' = metadata c" using IH md1 by simp
  have 5: "dom (evtStore c') = dom (evtStore c) \<union> set (out_keys alg (s # L))"
    using IH d1 ok by auto
  have 6: "distinct (out_keys alg (s # L))"
    using IH D(5) d1 unfolding ok by auto
  have 7: "set (out_keys alg (s # L)) \<inter> dom (evtStore c) = {}"
    using IH D(2,3,4) d1 unfolding ok by auto
  have 8: "\<forall>s'\<in>set (s # L).
        configure (tool c) s' = SC_Ok \<and>
        evtStore c' (m_outSCContainerName alg @ name s') =
          Some (TauJetContainer OWN_ELEMENTS (syst_copy alg (tool c) inTaus s')) \<and>
        evtStore c' (m_outSCAuxContainerName alg @ name s') =
          Some (ShallowAuxContainer (syst_copy alg (tool c) inTaus s')) \<and>
        evtStore c' (m_outContainerName alg @ name s') =
          Some (ConstDataVector VIEW_ELEMENTS
                  (syst_view alg srt (syst_copy alg (tool c) inTaus s')))"
    using IH heads' D(1) by (simp add: t1)
  from 1 2 3 4 5 6 7 8 show ?case by blast
qed


subsection \<open>execute as a whole\<close>

lemma execute_syst_numEvent:
  "execute_syst (alg\<lparr>m_numEvent := n\<rparr>) srt inTaus s c = execute_syst alg srt inTaus s c"
proof (cases "configure (tool c) s = SC_Ok")
  case True
  show ?thesis
    unfolding execute_syst_Ok [OF True]
    by (simp add: syst_copy_def syst_msgs_def syst_view_def isMC_def)
next
  case False
  then show ?thesis by (simp add: execute_syst_Unsupported)
qed

lemma execute_loop_numEvent:
  "execute_loop (alg\<lparr>m_numEvent := n\<rparr>) srt inTaus L vec c = execute_loop alg srt inTaus L vec c"
  by (induction L arbitrary: vec c)
     (simp_all add: execute_syst_numEvent split: prod.splits StatusCode.splits)

lemma execute_unfold:
  "execute alg srt c =
     (if retrieve_EventInfo (evtStore c) (m_eventInfoContainerName alg) \<noteq> SUCCESS
      then (FAILURE, alg\<lparr>m_numEvent := m_numEvent alg + 1\<rparr>, c)
      else
       (case retrieve_TauJetContainer (evtStore c) (m_inContainerName alg) of
          None \<Rightarrow> (FAILURE, alg\<lparr>m_numEvent := m_numEvent alg + 1\<rparr>, c)
        | Some inTaus \<Rightarrow>
            (case execute_loop alg srt inTaus (m_systList alg) [] c of
               (FAILURE, _, c') \<Rightarrow> (FAILURE, alg\<lparr>m_numEvent := m_numEvent alg + 1\<rparr>, c')
             | (SUCCESS, vec, c') \<Rightarrow>
                 (if evtStore c' (m_outputAlgoSystNames alg) \<noteq> None
                  then (FAILURE, alg\<lparr>m_numEvent := m_numEvent alg + 1\<rparr>, c')
                  else (SUCCESS, alg\<lparr>m_numEvent := m_numEvent alg + 1\<rparr>,
                        c'\<lparr>evtStore := (evtStore c')(m_outputAlgoSystNames alg \<mapsto> StringVector vec)\<rparr>)))))"
  by (auto simp: execute_def Let_def execute_loop_numEvent record_obj_def
      split: option.splits prod.splits StatusCode.splits)

lemma execute_SUCCESS_D:
  assumes "execute alg srt c = (SUCCESS, alg', c')"
  obtains inTaus vec c1 where
    "retrieve_EventInfo (evtStore c) (m_eventInfoContainerName alg) = SUCCESS"
    "retrieve_TauJetContainer (evtStore c) (m_inContainerName alg) = Some inTaus"
    "execute_loop alg srt inTaus (m_systList alg) [] c = (SUCCESS, vec, c1)"
    "evtStore c1 (m_outputAlgoSystNames alg) = None"
    "c' = c1\<lparr>evtStore := (evtStore c1)(m_outputAlgoSystNames alg \<mapsto> StringVector vec)\<rparr>"
    "alg' = alg\<lparr>m_numEvent := m_numEvent alg + 1\<rparr>"
  using assms unfolding execute_unfold
  by (auto split: if_splits option.splits prod.splits StatusCode.splits)

subsection \<open>The concrete event\<close>

lemma ex_execute_status: "fst (execute ex_alg insertion_sort ex_ctx) = SUCCESS"
  by (simp add: execute_def ex_alg_def ex_alg0_def ex_ctx_def ex_store_def Let_def
     retrieve_EventInfo_def retrieve_TauJetContainer_def execute_syst_Ok execute_syst_Unsupported
     record3_if ex_tool_def nominal_def record_obj_def)

lemma ex_execute:
  "execute ex_alg insertion_sort ex_ctx =
     (SUCCESS, fst (snd (execute ex_alg insertion_sort ex_ctx)),
      snd (snd (execute ex_alg insertion_sort ex_ctx)))"
  using ex_execute_status by (simp add: prod_eq_iff)

subsection \<open>Sorting\<close>

lemma mset_insert_by: "mset (insert_by cmp x xs) = add_mset x (mset xs)"
  by (induction xs) simp_all

lemma set_insert_by: "set (insert_by cmp x xs) = insert x (set xs)"
  by (induction xs) auto

lemma sorted_insert_by:
  assumes "strict_weak_order cmp" and "sorted_wrt (\<lambda>a b. \<not> cmp b a) xs"
  shows "sorted_wrt (\<lambda>a b. \<not> cmp b a) (insert_by cmp x xs)"
  using assms(2)
proof (induction xs)
  case Nil
  then show ?case by simp
next
  case (Cons y ys)
  have irr: "\<not> cmp a a" for a using assms(1) by (simp add: strict_weak_order_def)
  have tr: "cmp a b \<Longrightarrow> cmp b d \<Longrightarrow> cmp a d" for a b d
    using assms(1) unfolding strict_weak_order_def by blast
  have ntr: "\<not> cmp a b \<Longrightarrow> \<not> cmp b d \<Longrightarrow> \<not> cmp a d" for a b d
    using assms(1) unfolding strict_weak_order_def by blast
  show ?case
  proof (cases "cmp y x")
    case True
    then have "\<not> cmp x y" using irr tr by blast
    with True Cons show ?thesis by (auto simp: set_insert_by)
  next
    case False
    have "\<not> cmp z x" if "z \<in> set ys" for z
    proof -
      from that Cons.prems have "\<not> cmp z y" by simp
      with False show ?thesis using ntr by blast
    qed
    with False Cons.prems show ?thesis by auto
  qed
qed

lemma insertion_sort_Cons: "insertion_sort cmp (x # xs) = insert_by cmp x (insertion_sort cmp xs)"
  by (simp add: insertion_sort_def)

lemma mset_insertion_sort: "mset (insertion_sort cmp xs) = mset xs"
  by (induction xs) (simp_all add: insertion_sort_Cons mset_insert_by, simp add: insertion_sort_def)

lemma sorted_insertion_sort:
  "strict_weak_order cmp \<Longrightarrow> sorted_wrt (\<lambda>a b. \<not> cmp b a) (insertion_sort cmp xs)"
proof (induction xs)
  case Nil
  then show ?case by (simp add: insertion_sort_def)
next
  case (Cons x xs)
  then show ?case by (simp add: insertion_sort_Cons sorted_insert_by)
qed

lemma insertion_sort_contract: "std_sort_contract insertion_sort"
  by (simp add: std_sort_contract_def mset_insertion_sort sorted_insertion_sort)

lemma sort_pt_strict_weak_order: "strict_weak_order (sort_pt cont)"
  by (auto simp: strict_weak_order_def sort_pt_def)

subsection \<open>copy and view\<close>

lemma length_syst_copy: "length (syst_copy alg tt inTaus s) = length (snd inTaus)"
  by (simp add: syst_copy_def setOriginalObjectLink_def length_calibration_loop)

lemma syst_view_unsorted: "\<not> m_sort alg \<Longrightarrow> syst_view alg srt sc = [0..<length sc]"
  by (simp add: syst_view_def)

lemma syst_view_sorted:
  assumes "m_sort alg" and "std_sort_contract srt"
  shows "mset (syst_view alg srt sc) = mset [0..<length sc]"
    and "sorted_wrt (\<lambda>a b. pt (sc ! a) \<ge> pt (sc ! b)) (syst_view alg srt sc)"
proof -
  from assms(2) sort_pt_strict_weak_order [of sc]
  have *: "mset (srt (sort_pt sc) [0..<length sc]) = mset [0..<length sc] \<and>
        sorted_wrt (\<lambda>a b. \<not> sort_pt sc b a) (srt (sort_pt sc) [0..<length sc])"
    unfolding std_sort_contract_def by blast
  from * assms(1) show "mset (syst_view alg srt sc) = mset [0..<length sc]"
    by (simp add: syst_view_def)
  have "(\<lambda>a b. \<not> sort_pt sc b a) = (\<lambda>a b. pt (sc ! a) \<ge> pt (sc ! b))"
    by (auto simp: sort_pt_def fun_eq_iff)
  with * assms(1) show "sorted_wrt (\<lambda>a b. pt (sc ! a) \<ge> pt (sc ! b)) (syst_view alg srt sc)"
    by (simp add: syst_view_def)
qed




lemma execute_SUCCESS_published:
  assumes "execute alg srt c = (SUCCESS, alg', c')" and "s \<in> set (m_systList alg)"
  obtains inTaus where
    "retrieve_TauJetContainer (evtStore c) (m_inContainerName alg) = Some inTaus"
    "configure (tool c) s = SC_Ok"
    "evtStore c' (m_outSCContainerName alg @ name s) =
       Some (TauJetContainer OWN_ELEMENTS (syst_copy alg (tool c) inTaus s))"
    "evtStore c' (m_outSCAuxContainerName alg @ name s) =
       Some (ShallowAuxContainer (syst_copy alg (tool c) inTaus s))"
    "evtStore c' (m_outContainerName alg @ name s) =
       Some (ConstDataVector VIEW_ELEMENTS (syst_view alg srt (syst_copy alg (tool c) inTaus s)))"
proof -
  from assms(1) obtain inTaus vec c1 where
    r: "retrieve_TauJetContainer (evtStore c) (m_inContainerName alg) = Some inTaus" and
    loop: "execute_loop alg srt inTaus (m_systList alg) [] c = (SUCCESS, vec, c1)" and
    free: "evtStore c1 (m_outputAlgoSystNames alg) = None" and
    c': "c' = c1\<lparr>evtStore := (evtStore c1)(m_outputAlgoSystNames alg \<mapsto> StringVector vec)\<rparr>"
    by (rule execute_SUCCESS_D)
  from execute_loop_SUCCESS [OF loop] assms(2) have
    p: "configure (tool c) s = SC_Ok"
      "evtStore c1 (m_outSCContainerName alg @ name s) =
         Some (TauJetContainer OWN_ELEMENTS (syst_copy alg (tool c) inTaus s))"
      "evtStore c1 (m_outSCAuxContainerName alg @ name s) =
         Some (ShallowAuxContainer (syst_copy alg (tool c) inTaus s))"
      "evtStore c1 (m_outContainerName alg @ name s) =
         Some (ConstDataVector VIEW_ELEMENTS (syst_view alg srt (syst_copy alg (tool c) inTaus s)))"
    by blast+
  have "evtStore c' k = evtStore c1 k" if "evtStore c1 k \<noteq> None" for k
    using that free by (auto simp: c')
  with p r that show ?thesis by simp
qed

lemmas ex_defs = ex_alg_def ex_alg0_def ex_ctx_def ex_store_def ex_tool_def ex_taus_def
  ex_correction_def nominal_def ex_alg_sort_def ex_tool_err_def ex_ctx_err_def

lemmas run_defs = execute_unfold retrieve_EventInfo_def retrieve_TauJetContainer_def
  execute_syst_Ok execute_syst_Unsupported record3_if syst_copy_def syst_view_def syst_msgs_def
  isMC_def calibrate_tau_def getTruthParticle_def applyCorrection_def setOriginalObjectLink_def
  insertion_sort_def sort_pt_def

lemma ex_sort_status: "fst (execute ex_alg_sort insertion_sort ex_ctx) = SUCCESS"
  by (simp add: ex_defs run_defs)

lemma ex_sort_execute:
  "execute ex_alg_sort insertion_sort ex_ctx =
     (SUCCESS, fst (snd (execute ex_alg_sort insertion_sort ex_ctx)),
      snd (snd (execute ex_alg_sort insertion_sort ex_ctx)))"
  using ex_sort_status by (simp add: prod_eq_iff)

lemma ex_sort_view:
  "evtStore (snd (snd (execute ex_alg_sort insertion_sort ex_ctx))) ''Out'' =
     Some (ConstDataVector VIEW_ELEMENTS [1, 0, 2])"
  by (simp add: ex_defs run_defs upt_rec)


subsection \<open>initialize\<close>

lemma initialize_SUCCESS_D:
  assumes "initialize inSubset alg0 c0 = (SUCCESS, alg, c)"
  shows "m_outContainerName alg = m_outContainerName alg0"
    and "m_outSCContainerName alg = m_outContainerName alg0 @ ''ShallowCopy''"
    and "m_outSCAuxContainerName alg = m_outContainerName alg0 @ ''ShallowCopyAux.''"
    and "m_outAuxContainerName alg = m_outContainerName alg0 @ ''Aux.''"
    and "m_inContainerName alg \<noteq> []"
    and "m_systList alg =
           getListofSystematics inSubset (recommendedSystematics (tool c0))
             (m_systName alg0) (m_systVal alg0)"
  using assms
  by (auto simp: initialize_def Let_def split: if_splits prod.splits StatusCode.splits)

lemma nominal_in_getListofSystematics:
  "nominal \<in> set (getListofSystematics inSubset inSysts systNames systVal)"
  by (simp add: getListofSystematics_def)

lemma ex_initialize:
  "initialize ex_inSubset ex_alg0 ex_ctx =
     (SUCCESS, ex_alg, ex_ctx\<lparr>evtStore := ex_store(''taus_SystTauCalib'' \<mapsto> StringVector [[], ''TAUS_TES_TOTAL_1up''])\<rparr>)"
  by (simp add: initialize_def ex_alg_def ex_alg0_def ex_ctx_def ex_tool_def ex_store_def
      getListofSystematics_def ex_inSubset_def record_obj_def Let_def nominal_def)

lemma ex_store_Out:
  "evtStore (snd (snd (execute ex_alg insertion_sort ex_ctx))) ''Out'' =
     Some (ConstDataVector VIEW_ELEMENTS [0, 1, 2])"
  "evtStore (snd (snd (execute ex_alg insertion_sort ex_ctx))) ''OutTAUS_TES_TOTAL_1up'' =
     Some (ConstDataVector VIEW_ELEMENTS [0, 1, 2])"
  by (simp_all add: ex_defs run_defs upt_rec)

lemma ex_store_SC:
  "evtStore (snd (snd (execute ex_alg insertion_sort ex_ctx))) ''OutShallowCopy'' =
     Some (TauJetContainer OWN_ELEMENTS
       [\<lparr>pt = 30000, eta = 1/2, phi = 1, mass = 1777,
         truthParticleLink = Some 0, originalObjectLink = Some 0\<rparr>,
        \<lparr>pt = 45000, eta = -1, phi = 2, mass = 1777,
         truthParticleLink = None, originalObjectLink = Some 1\<rparr>,
        \<lparr>pt = 20000, eta = 2, phi = 3, mass = 1777,
         truthParticleLink = Some 2, originalObjectLink = Some 2\<rparr>])"
  "evtStore (snd (snd (execute ex_alg insertion_sort ex_ctx))) ''OutShallowCopyTAUS_TES_TOTAL_1up'' =
     Some (TauJetContainer OWN_ELEMENTS
       [\<lparr>pt = 60000, eta = 1/2, phi = 1, mass = 1777,
         truthParticleLink = Some 0, originalObjectLink = Some 0\<rparr>,
        \<lparr>pt = 45000, eta = -1, phi = 2, mass = 1777,
         truthParticleLink = None, originalObjectLink = Some 1\<rparr>,
        \<lparr>pt = 20000, eta = 2, phi = 3, mass = 1777,
         truthParticleLink = Some 2, originalObjectLink = Some 2\<rparr>])"
  by (simp_all add: ex_defs run_defs upt_rec)

subsection \<open>Splitting the loop\<close>

lemma execute_loop_append:
  "execute_loop alg srt inTaus (L1 @ L2) vec c =
     (case execute_loop alg srt inTaus L1 vec c of
        (FAILURE, r) \<Rightarrow> (FAILURE, r)
      | (SUCCESS, vec1, c1) \<Rightarrow> execute_loop alg srt inTaus L2 vec1 c1)"
  by (induction L1 arbitrary: vec c) (simp_all split: prod.splits StatusCode.splits)

lemma execute_syst_systList:
  "execute_syst (alg\<lparr>m_systList := L\<rparr>) srt inTaus s c = execute_syst alg srt inTaus s c"
proof (cases "configure (tool c) s = SC_Ok")
  case True
  show ?thesis
    unfolding execute_syst_Ok [OF True]
    by (simp add: syst_copy_def syst_msgs_def syst_view_def isMC_def)
next
  case False
  then show ?thesis by (simp add: execute_syst_Unsupported)
qed

lemma execute_loop_systList:
  "execute_loop (alg\<lparr>m_systList := L\<rparr>) srt inTaus L' vec c = execute_loop alg srt inTaus L' vec c"
  by (induction L' arbitrary: vec c)
     (simp_all add: execute_syst_systList split: prod.splits StatusCode.splits)

subsection \<open>Keys that are free, and what the calibration does to one tau\<close>

lemma out_keys_Cons:
  "out_keys alg (s # L) =
     [m_outSCContainerName alg @ name s, m_outSCAuxContainerName alg @ name s,
      m_outContainerName alg @ name s] @ out_keys alg L"
  by (simp add: out_keys_def)

lemma execute_loop_fresh:
  assumes "\<forall>s\<in>set L. configure (tool c) s = SC_Ok"
    and "distinct (out_keys alg L)"
    and "set (out_keys alg L) \<inter> dom (evtStore c) = {}"
  shows "\<exists>c'. execute_loop alg srt inTaus L vec c = (SUCCESS, vec @ map name L, c')"
  using assms
proof (induction L arbitrary: vec c)
  case Nil
  then show ?case by simp
next
  case (Cons s L)
  let ?k1 = "m_outSCContainerName alg @ name s"
  let ?k2 = "m_outSCAuxContainerName alg @ name s"
  let ?k3 = "m_outContainerName alg @ name s"
  from Cons.prems(1) have ok: "configure (tool c) s = SC_Ok" by simp
  from Cons.prems(2) have d: "?k2 \<noteq> ?k1" "?k3 \<noteq> ?k1" "?k3 \<noteq> ?k2"
    unfolding out_keys_Cons by auto
  from Cons.prems(3) have f: "evtStore c ?k1 = None" "evtStore c ?k2 = None" "evtStore c ?k3 = None"
    unfolding out_keys_Cons by auto
  obtain c1 where b: "execute_syst alg srt inTaus s c = (SUCCESS, c1)"
    unfolding execute_syst_Ok [OF ok] record3_if using d f by simp
  note D = execute_syst_SUCCESS_D [OF b]
  have t1: "tool c1 = (tool c)\<lparr>appliedSystematic := s\<rparr>" using D(6) by simp
  have d1: "dom (evtStore c1) = dom (evtStore c) \<union> {?k1, ?k2, ?k3}"
    using D(6) by auto
  have 1: "\<forall>s'\<in>set L. configure (tool c1) s' = SC_Ok" using Cons.prems(1) by (simp add: t1)
  have 2: "distinct (out_keys alg L)" using Cons.prems(2) unfolding out_keys_Cons by simp
  have 3: "set (out_keys alg L) \<inter> dom (evtStore c1) = {}"
    using Cons.prems(2,3) unfolding out_keys_Cons d1 by auto
  from Cons.IH [OF 1 2 3, of "vec @ [name s]"] b show ?case by simp
qed

lemma fst_calibration_loop: "fst (calibration_loop tt taus) = map (\<lambda>tau. fst (calibrate_tau tt tau)) taus"
  by (induction taus) (auto split: prod.splits)

lemma snd_calibration_loop:
  "snd (calibration_loop tt taus) = concat (map (\<lambda>tau. snd (calibrate_tau tt tau)) taus)"
  by (induction taus) (auto split: prod.splits)

lemma snd_calibrate_tau:
  "snd (calibrate_tau tt tau) =
     (if getTruthParticle tau \<noteq> None \<and> fst (applyCorrection tt tau) = CC_Error
      then [(WARNING, ''TauSmearingTool returned Error CorrectionCode'')] else [])"
  by (simp add: calibrate_tau_def split: option.splits prod.splits)

lemma fst_calibrate_tau:
  "fst (calibrate_tau tt tau) =
     (if getTruthParticle tau = None then tau else snd (applyCorrection tt tau))"
  by (simp add: calibrate_tau_def split: option.splits prod.splits)

lemma warnings_calibration_loop:
  "snd (calibration_loop tt taus) =
     [(WARNING, ''TauSmearingTool returned Error CorrectionCode'').
        tau \<leftarrow> taus, getTruthParticle tau \<noteq> None, fst (applyCorrection tt tau) = CC_Error]"
  unfolding snd_calibration_loop snd_calibrate_tau
  by (induction taus) simp_all

lemma syst_msgs_eq:
  "syst_msgs alg tt inTaus s =
     (if isMC alg
      then [(WARNING, ''TauSmearingTool returned Error CorrectionCode'').
              tau \<leftarrow> snd inTaus, getTruthParticle tau \<noteq> None,
              fst (correction tt s tau) = CC_Error]
      else []) @
     (if fst inTaus = VIEW_ELEMENTS
      then [(ERROR, ''Failed to set original object links -- MET rebuilding cannot proceed.'')]
      else [])"
  unfolding syst_msgs_def warnings_calibration_loop
  by (simp add: applyCorrection_def cong: if_cong)

lemma nth_setOriginalObjectLink:
  assumes "i < length copy"
  shows "snd (setOriginalObjectLink orig copy) ! i =
     (if length (snd orig) \<noteq> length copy \<or> fst orig = VIEW_ELEMENTS then copy ! i
      else (copy ! i)\<lparr>originalObjectLink := Some i\<rparr>)"
  using assms by (simp add: setOriginalObjectLink_def)

lemma nth_syst_copy:
  assumes "i < length (snd inTaus)"
  shows "syst_copy alg tt inTaus s ! i =
     (let tau = (if isMC alg \<and> getTruthParticle (snd inTaus ! i) \<noteq> None
                 then snd (correction tt s (snd inTaus ! i)) else snd inTaus ! i)
      in if fst inTaus = VIEW_ELEMENTS then tau else tau\<lparr>originalObjectLink := Some i\<rparr>)"
  using assms
  by (simp add: syst_copy_def nth_setOriginalObjectLink length_calibration_loop
      fst_calibration_loop fst_calibrate_tau applyCorrection_def Let_def)

lemma p4_link [simp]: "p4 (tau\<lparr>originalObjectLink := l\<rparr>) = p4 tau"
  by (simp add: p4_def)

lemma ex_keys:
  "out_keys ex_alg (m_systList ex_alg) =
     [''OutShallowCopy'', ''OutShallowCopyAux.'', ''Out'',
      ''OutShallowCopyTAUS_TES_TOTAL_1up'', ''OutShallowCopyAux.TAUS_TES_TOTAL_1up'',
      ''OutTAUS_TES_TOTAL_1up'']"
  by (simp add: out_keys_def ex_alg_def ex_alg0_def nominal_def)

subsection \<open>Links of the copy\<close>

lemma OwnershipPolicy_not_VIEW: "(pol \<noteq> VIEW_ELEMENTS) = (pol = OWN_ELEMENTS)"
  by (cases pol) simp_all

lemma link_syst_copy:
  assumes "fst inTaus = OWN_ELEMENTS" and "i < length (snd inTaus)"
  shows "originalObjectLink (syst_copy alg tt inTaus s ! i) = Some i"
  using assms by (simp add: nth_syst_copy Let_def)

lemma syst_view_props:
  assumes "m_sort alg \<Longrightarrow> std_sort_contract srt"
  shows "mset (syst_view alg srt sc) = mset [0..<length sc]"
proof (cases "m_sort alg")
  case True
  from syst_view_sorted(1) [OF True assms [OF True]] show ?thesis .
next
  case False
  then show ?thesis by (simp add: syst_view_unsorted)
qed

subsection \<open>What execute does not depend on\<close>

lemma execute_syst_tool_indep:
  assumes "evtStore c2 = evtStore c" and "tool c2 = (tool c)\<lparr>appliedSystematic := x\<rparr>"
  shows "fst (execute_syst alg srt inTaus s c2) = fst (execute_syst alg srt inTaus s c) \<and>
         evtStore (snd (execute_syst alg srt inTaus s c2)) =
           evtStore (snd (execute_syst alg srt inTaus s c)) \<and>
         (\<exists>y. tool (snd (execute_syst alg srt inTaus s c2)) =
                (tool (snd (execute_syst alg srt inTaus s c)))\<lparr>appliedSystematic := y\<rparr>)"
proof (cases "configure (tool c) s = SC_Ok")
  case True
  then have True2: "configure (tool c2) s = SC_Ok" by (simp add: assms(2))
  have "tool (snd (execute_syst alg srt inTaus s c2)) =
        (tool (snd (execute_syst alg srt inTaus s c)))\<lparr>appliedSystematic := s\<rparr>"
    unfolding execute_syst_Ok [OF True] execute_syst_Ok [OF True2] record3_if
    by (simp add: assms)
  then have "\<exists>y. tool (snd (execute_syst alg srt inTaus s c2)) =
        (tool (snd (execute_syst alg srt inTaus s c)))\<lparr>appliedSystematic := y\<rparr>" ..
  moreover have "fst (execute_syst alg srt inTaus s c2) = fst (execute_syst alg srt inTaus s c)"
    unfolding execute_syst_Ok [OF True] execute_syst_Ok [OF True2] record3_if
    by (simp add: assms)
  moreover have "evtStore (snd (execute_syst alg srt inTaus s c2)) =
           evtStore (snd (execute_syst alg srt inTaus s c))"
    unfolding execute_syst_Ok [OF True] execute_syst_Ok [OF True2] record3_if
    by (simp add: assms)
  ultimately show ?thesis by blast
next
  case False
  then have False2: "configure (tool c2) s \<noteq> SC_Ok" by (simp add: assms(2))
  have "tool (snd (execute_syst alg srt inTaus s c2)) =
        (tool (snd (execute_syst alg srt inTaus s c)))\<lparr>appliedSystematic := x\<rparr>"
    by (simp add: execute_syst_Unsupported [OF False] execute_syst_Unsupported [OF False2]
        ANA_MSG_def assms)
  then have "\<exists>y. tool (snd (execute_syst alg srt inTaus s c2)) =
        (tool (snd (execute_syst alg srt inTaus s c)))\<lparr>appliedSystematic := y\<rparr>" ..
  then show ?thesis
    by (simp add: execute_syst_Unsupported [OF False] execute_syst_Unsupported [OF False2]
        ANA_MSG_def assms(1))
qed

lemma execute_loop_tool_indep:
  assumes "evtStore c2 = evtStore c" and "tool c2 = (tool c)\<lparr>appliedSystematic := x\<rparr>"
  shows "fst (execute_loop alg srt inTaus L vec c2) = fst (execute_loop alg srt inTaus L vec c) \<and>
         fst (snd (execute_loop alg srt inTaus L vec c2)) =
           fst (snd (execute_loop alg srt inTaus L vec c)) \<and>
         evtStore (snd (snd (execute_loop alg srt inTaus L vec c2))) =
           evtStore (snd (snd (execute_loop alg srt inTaus L vec c))) \<and>
         (\<exists>y. tool (snd (snd (execute_loop alg srt inTaus L vec c2))) =
                (tool (snd (snd (execute_loop alg srt inTaus L vec c))))\<lparr>appliedSystematic := y\<rparr>)"
  using assms
proof (induction L arbitrary: vec c c2 x)
  case Nil
  have "tool c2 = (tool c)\<lparr>appliedSystematic := x\<rparr>" by (rule Nil(2))
  then have "\<exists>y. tool c2 = (tool c)\<lparr>appliedSystematic := y\<rparr>" ..
  with Nil(1) show ?case by simp
next
  case (Cons s L)
  obtain st1 c1 where b: "execute_syst alg srt inTaus s c = (st1, c1)"
    by (cases "execute_syst alg srt inTaus s c")
  obtain st1' c1' where b': "execute_syst alg srt inTaus s c2 = (st1', c1')"
    by (cases "execute_syst alg srt inTaus s c2")
  from execute_syst_tool_indep [OF Cons.prems, of alg srt inTaus s] b b'
  obtain y where r: "st1' = st1" "evtStore c1' = evtStore c1"
    "tool c1' = (tool c1)\<lparr>appliedSystematic := y\<rparr>"
    by auto
  show ?case
  proof (cases st1)
    case FAILURE
    have "\<exists>y. tool c1' = (tool c1)\<lparr>appliedSystematic := y\<rparr>" using r(3) ..
    with FAILURE b b' r(1,2) show ?thesis by simp
  next
    case SUCCESS
    from Cons.IH [OF r(2,3), of "vec @ [name s]"] SUCCESS b b' r(1) show ?thesis by simp
  qed
qed

lemma execute_indep:
  assumes "evtStore c2 = evtStore c" and "tool c2 = (tool c)\<lparr>appliedSystematic := x\<rparr>"
  shows "fst (execute (alg\<lparr>m_numEvent := n\<rparr>) srt c2) = fst (execute alg srt c) \<and>
         evtStore (snd (snd (execute (alg\<lparr>m_numEvent := n\<rparr>) srt c2))) =
           evtStore (snd (snd (execute alg srt c)))"
proof (cases "retrieve_EventInfo (evtStore c) (m_eventInfoContainerName alg) = SUCCESS")
  case False
  then show ?thesis by (simp add: execute_unfold assms(1))
next
  case ev: True
  show ?thesis
  proof (cases "retrieve_TauJetContainer (evtStore c) (m_inContainerName alg)")
    case None
    then show ?thesis by (simp add: execute_unfold assms(1) ev)
  next
    case (Some inTaus)
    obtain st vec cL where l: "execute_loop alg srt inTaus (m_systList alg) [] c = (st, vec, cL)"
      by (cases "execute_loop alg srt inTaus (m_systList alg) [] c")
    obtain st' vec' cL' where l': "execute_loop alg srt inTaus (m_systList alg) [] c2 = (st', vec', cL')"
      by (cases "execute_loop alg srt inTaus (m_systList alg) [] c2")
    from execute_loop_tool_indep [OF assms, of alg srt inTaus "m_systList alg" "[]"] l l'
    have r: "st' = st" "vec' = vec" "evtStore cL' = evtStore cL" by auto
    show ?thesis
      by (cases st)
         (simp_all add: execute_unfold assms(1) ev Some l l' r execute_loop_numEvent)
  qed
qed

lemma execute_alg:
  "fst (snd (execute alg srt c)) = alg\<lparr>m_numEvent := m_numEvent alg + 1\<rparr>"
  by (simp add: execute_unfold split: option.splits prod.splits StatusCode.splits)

lemma execute_loop_tool:
  "execute_loop alg srt inTaus L vec c = (st, vec', c') \<Longrightarrow>
   \<exists>x. tool c' = (tool c)\<lparr>appliedSystematic := x\<rparr>"
proof (induction L arbitrary: vec c)
  case Nil
  then have "tool c' = (tool c)\<lparr>appliedSystematic := appliedSystematic (tool c)\<rparr>" by simp
  then show ?case by (rule exI)
next
  case (Cons s L)
  obtain st1 c1 where b: "execute_syst alg srt inTaus s c = (st1, c1)"
    by (cases "execute_syst alg srt inTaus s c")
  from execute_syst_tool [OF b] obtain x where t1: "tool c1 = (tool c)\<lparr>appliedSystematic := x\<rparr>" ..
  show ?case
  proof (cases st1)
    case FAILURE
    with Cons.prems b have "c' = c1" by simp
    with t1 show ?thesis by blast
  next
    case SUCCESS
    with Cons.prems b have "execute_loop alg srt inTaus L (vec @ [name s]) c1 = (st, vec', c')"
      by simp
    from Cons.IH [OF this] obtain y where "tool c' = (tool c1)\<lparr>appliedSystematic := y\<rparr>" ..
    then have "tool c' = (tool c)\<lparr>appliedSystematic := y\<rparr>" by (simp add: t1)
    then show ?thesis ..
  qed
qed

lemma execute_tool:
  "\<exists>x. tool (snd (snd (execute alg srt c))) = (tool c)\<lparr>appliedSystematic := x\<rparr>"
proof -
  have refl: "\<exists>x. tool c = (tool c)\<lparr>appliedSystematic := x\<rparr>"
    by (rule exI [of _ "appliedSystematic (tool c)"]) simp
  show ?thesis
  proof (cases "retrieve_EventInfo (evtStore c) (m_eventInfoContainerName alg) = SUCCESS")
    case False
    then show ?thesis using refl by (simp add: execute_unfold)
  next
    case ev: True
    show ?thesis
    proof (cases "retrieve_TauJetContainer (evtStore c) (m_inContainerName alg)")
      case None
      then show ?thesis using refl by (simp add: execute_unfold ev)
    next
      case (Some inTaus)
      obtain st vec cL where l: "execute_loop alg srt inTaus (m_systList alg) [] c = (st, vec, cL)"
        by (cases "execute_loop alg srt inTaus (m_systList alg) [] c")
      from execute_loop_tool [OF l] show ?thesis
        by (cases st) (simp_all add: execute_unfold ev Some l)
    qed
  qed
qed

subsection \<open>Real data\<close>

lemma syst_copy_data:
  "\<not> isMC alg \<Longrightarrow> syst_copy alg tt inTaus s = snd (setOriginalObjectLink inTaus (snd inTaus))"
  by (simp add: syst_copy_def)

lemma syst_msgs_data:
  "\<not> isMC alg \<Longrightarrow>
   syst_msgs alg tt inTaus s =
     (if fst inTaus = VIEW_ELEMENTS
      then [(ERROR, ''Failed to set original object links -- MET rebuilding cannot proceed.'')]
      else [])"
  by (simp add: syst_msgs_def)

lemma execute_syst_correction:
  assumes "\<not> isMC alg"
  shows "execute_syst alg srt inTaus s (c\<lparr>tool := (tool c)\<lparr>correction := f\<rparr>\<rparr>) =
     (fst (execute_syst alg srt inTaus s c),
      (snd (execute_syst alg srt inTaus s c))
        \<lparr>tool := (tool (snd (execute_syst alg srt inTaus s c)))\<lparr>correction := f\<rparr>\<rparr>)"
proof (cases "configure (tool c) s = SC_Ok")
  case True
  then have True2: "configure (tool (c\<lparr>tool := (tool c)\<lparr>correction := f\<rparr>\<rparr>)) s = SC_Ok" by simp
  show ?thesis
    unfolding execute_syst_Ok [OF True] execute_syst_Ok [OF True2] record3_if
    by (simp add: syst_copy_data [OF assms] syst_msgs_data [OF assms])
next
  case False
  then have False2: "configure (tool (c\<lparr>tool := (tool c)\<lparr>correction := f\<rparr>\<rparr>)) s \<noteq> SC_Ok" by simp
  show ?thesis
    by (simp add: execute_syst_Unsupported [OF False] execute_syst_Unsupported [OF False2]
        ANA_MSG_def)
qed

lemma execute_loop_correction:
  assumes "\<not> isMC alg"
  shows "execute_loop alg srt inTaus L vec (c\<lparr>tool := (tool c)\<lparr>correction := f\<rparr>\<rparr>) =
     (fst (execute_loop alg srt inTaus L vec c),
      fst (snd (execute_loop alg srt inTaus L vec c)),
      (snd (snd (execute_loop alg srt inTaus L vec c)))
        \<lparr>tool := (tool (snd (snd (execute_loop alg srt inTaus L vec c))))\<lparr>correction := f\<rparr>\<rparr>)"
proof (induction L arbitrary: vec c)
  case Nil
  show ?case by simp
next
  case (Cons s L)
  obtain st1 c1 where b: "execute_syst alg srt inTaus s c = (st1, c1)"
    by (cases "execute_syst alg srt inTaus s c")
  have b': "execute_syst alg srt inTaus s (c\<lparr>tool := (tool c)\<lparr>correction := f\<rparr>\<rparr>) =
      (st1, c1\<lparr>tool := (tool c1)\<lparr>correction := f\<rparr>\<rparr>)"
    by (simp add: execute_syst_correction [OF assms] b)
  show ?case
    by (cases st1) (simp_all add: b b' Cons.IH)
qed

lemma execute_correction:
  assumes "\<not> isMC alg"
  shows "execute alg srt (c\<lparr>tool := (tool c)\<lparr>correction := f\<rparr>\<rparr>) =
     (fst (execute alg srt c), fst (snd (execute alg srt c)),
      (snd (snd (execute alg srt c)))
        \<lparr>tool := (tool (snd (snd (execute alg srt c))))\<lparr>correction := f\<rparr>\<rparr>)"
proof (cases "retrieve_EventInfo (evtStore c) (m_eventInfoContainerName alg) = SUCCESS")
  case False
  then show ?thesis by (simp add: execute_unfold)
next
  case ev: True
  show ?thesis
  proof (cases "retrieve_TauJetContainer (evtStore c) (m_inContainerName alg)")
    case None
    then show ?thesis by (simp add: execute_unfold ev)
  next
    case (Some inTaus)
    obtain st vec cL where l: "execute_loop alg srt inTaus (m_systList alg) [] c = (st, vec, cL)"
      by (cases "execute_loop alg srt inTaus (m_systList alg) [] c")
    have l': "execute_loop alg srt inTaus (m_systList alg) [] (c\<lparr>tool := (tool c)\<lparr>correction := f\<rparr>\<rparr>) =
        (st, vec, cL\<lparr>tool := (tool cL)\<lparr>correction := f\<rparr>\<rparr>)"
      by (simp add: execute_loop_correction [OF assms] l)
    show ?thesis
      by (cases st) (simp_all add: execute_unfold ev Some l l')
  qed
qed

lemma length_setOriginalObjectLink:
  "length (snd (setOriginalObjectLink orig copy)) = length copy"
  by (simp add: setOriginalObjectLink_def)

lemma map_p4_link: "map p4 (snd (setOriginalObjectLink inTaus taus)) = map p4 taus"
  by (rule nth_equalityI)
     (simp_all add: length_setOriginalObjectLink nth_setOriginalObjectLink)

lemma truthParticleLink_link:
  "map truthParticleLink (snd (setOriginalObjectLink inTaus taus)) = map truthParticleLink taus"
  by (rule nth_equalityI)
     (simp_all add: length_setOriginalObjectLink nth_setOriginalObjectLink)

lemma ex_data_status: "fst (execute ex_alg_data insertion_sort ex_ctx) = SUCCESS"
  by (simp add: ex_alg_data_def ex_defs run_defs)

lemma ex_data_execute:
  "execute ex_alg_data insertion_sort ex_ctx =
     (SUCCESS, fst (snd (execute ex_alg_data insertion_sort ex_ctx)),
      snd (snd (execute ex_alg_data insertion_sort ex_ctx)))"
  using ex_data_status by (simp add: prod_eq_iff)

subsection \<open>A refused variation, and a store that only grows\<close>

lemma execute_loop_unsupported:
  assumes "\<exists>s\<in>set L. configure (tool c) s \<noteq> SC_Ok"
  shows "fst (execute_loop alg srt inTaus L vec c) = FAILURE"
  using assms
proof (induction L arbitrary: vec c)
  case Nil
  then show ?case by simp
next
  case (Cons s L)
  obtain st1 c1 where b: "execute_syst alg srt inTaus s c = (st1, c1)"
    by (cases "execute_syst alg srt inTaus s c")
  show ?case
  proof (cases st1)
    case FAILURE
    with b show ?thesis by simp
  next
    case SUCCESS
    note b = b [unfolded SUCCESS]
    note D = execute_syst_SUCCESS_D [OF b]
    have t1: "tool c1 = (tool c)\<lparr>appliedSystematic := s\<rparr>" using D(6) by simp
    from Cons.prems D(1) have "\<exists>s'\<in>set L. configure (tool c) s' \<noteq> SC_Ok" by auto
    then have "\<exists>s'\<in>set L. configure (tool c1) s' \<noteq> SC_Ok" by (simp add: t1)
    from Cons.IH [OF this, of "vec @ [name s]"] b show ?thesis by simp
  qed
qed

lemma execute_unsupported:
  assumes "\<exists>s\<in>set (m_systList alg). configure (tool c) s \<noteq> SC_Ok"
  shows "fst (execute alg srt c) = FAILURE"
proof (cases "retrieve_EventInfo (evtStore c) (m_eventInfoContainerName alg) = SUCCESS")
  case False
  then show ?thesis by (simp add: execute_unfold)
next
  case ev: True
  show ?thesis
  proof (cases "retrieve_TauJetContainer (evtStore c) (m_inContainerName alg)")
    case None
    then show ?thesis by (simp add: execute_unfold ev)
  next
    case (Some inTaus)
    obtain st vec cL where l: "execute_loop alg srt inTaus (m_systList alg) [] c = (st, vec, cL)"
      by (cases "execute_loop alg srt inTaus (m_systList alg) [] c")
    from execute_loop_unsupported [OF assms, of alg srt inTaus "[]"] l have "st = FAILURE" by simp
    then show ?thesis by (simp add: execute_unfold ev Some l)
  qed
qed

lemma execute_mono: "evtStore c \<subseteq>\<^sub>m evtStore (snd (snd (execute alg srt c)))"
proof (cases "retrieve_EventInfo (evtStore c) (m_eventInfoContainerName alg) = SUCCESS")
  case False
  then show ?thesis by (simp add: execute_unfold)
next
  case ev: True
  show ?thesis
  proof (cases "retrieve_TauJetContainer (evtStore c) (m_inContainerName alg)")
    case None
    then show ?thesis by (simp add: execute_unfold ev)
  next
    case (Some inTaus)
    obtain st vec cL where l: "execute_loop alg srt inTaus (m_systList alg) [] c = (st, vec, cL)"
      by (cases "execute_loop alg srt inTaus (m_systList alg) [] c")
    have m: "evtStore c \<subseteq>\<^sub>m evtStore cL" using l by (rule execute_loop_mono)
    show ?thesis
    proof (cases st)
      case FAILURE
      with m show ?thesis by (simp add: execute_unfold ev Some l)
    next
      case SUCCESS
      show ?thesis
      proof (cases "evtStore cL (m_outputAlgoSystNames alg) = None")
        case True
        have "evtStore cL \<subseteq>\<^sub>m (evtStore cL)(m_outputAlgoSystNames alg \<mapsto> StringVector vec)"
          using True by (auto simp: map_le_def)
        with m have "evtStore c \<subseteq>\<^sub>m (evtStore cL)(m_outputAlgoSystNames alg \<mapsto> StringVector vec)"
          by (rule map_le_trans)
        then show ?thesis using True by (simp add: execute_unfold ev Some l SUCCESS)
      next
        case False
        with m show ?thesis by (auto simp: execute_unfold ev Some l SUCCESS)
      qed
    qed
  qed
qed

lemma ex_bad_prefix:
  "execute_loop ex_alg_bad insertion_sort (OWN_ELEMENTS, ex_taus) [nominal] [] ex_ctx =
     (SUCCESS,
      fst (snd (execute_loop ex_alg_bad insertion_sort (OWN_ELEMENTS, ex_taus) [nominal] [] ex_ctx)),
      snd (snd (execute_loop ex_alg_bad insertion_sort (OWN_ELEMENTS, ex_taus) [nominal] [] ex_ctx)))"
proof -
  have "fst (execute_loop ex_alg_bad insertion_sort (OWN_ELEMENTS, ex_taus) [nominal] [] ex_ctx) =
      SUCCESS"
    by (simp add: ex_alg_bad_def ex_defs run_defs)
  then show ?thesis by (simp add: prod_eq_iff)
qed

section \<open>The claims\<close>

subsection \<open>C1\<close>

text \<open>
  C1. When \<^verbatim>\<open>execute\<close> completes successfully for one event, the manifest recorded under
  \<^verbatim>\<open>m_outputAlgoSystNames\<close> has exactly as many entries as the variation list
  \<^verbatim>\<open>m_systList\<close>, in the order of the list: entry \<open>i\<close> is the name of variation \<open>i\<close>, and
  the entry of the baseline is the empty string.
\<close>

theorem C1_manifest:
  assumes "execute alg srt c = (SUCCESS, alg', c')"
  shows "\<exists>manifest.
           evtStore c' (m_outputAlgoSystNames alg) = Some (StringVector manifest) \<and>
           length manifest = length (m_systList alg) \<and>
           (\<forall>i<length (m_systList alg). manifest ! i = name (m_systList alg ! i)) \<and>
           (\<forall>i<length (m_systList alg). m_systList alg ! i = nominal \<longrightarrow> manifest ! i = [])"
proof -
  from assms obtain inTaus vec c1 where
    loop: "execute_loop alg srt inTaus (m_systList alg) [] c = (SUCCESS, vec, c1)" and
    c': "c' = c1\<lparr>evtStore := (evtStore c1)(m_outputAlgoSystNames alg \<mapsto> StringVector vec)\<rparr>"
    by (rule execute_SUCCESS_D)
  from execute_loop_SUCCESS [OF loop] have vec: "vec = map name (m_systList alg)" by simp
  have "evtStore c' (m_outputAlgoSystNames alg) = Some (StringVector (map name (m_systList alg)))"
    by (simp add: c' vec)
  moreover have "\<forall>i<length (m_systList alg). m_systList alg ! i = nominal \<longrightarrow>
      map name (m_systList alg) ! i = []"
    by (simp add: nominal_def)
  ultimately show ?thesis by simp
qed

theorem C1_manifest_witness:
  "fst (execute ex_alg insertion_sort ex_ctx) = SUCCESS \<and>
   evtStore (snd (snd (execute ex_alg insertion_sort ex_ctx))) ''TauCalib_Syst'' =
     Some (StringVector [[], ''TAUS_TES_TOTAL_1up''])"
proof -
  from C1_manifest [OF ex_execute] obtain manifest where
    m: "evtStore (snd (snd (execute ex_alg insertion_sort ex_ctx))) (m_outputAlgoSystNames ex_alg) =
          Some (StringVector manifest)"
       "length manifest = length (m_systList ex_alg)"
       "\<forall>i<length (m_systList ex_alg). manifest ! i = name (m_systList ex_alg ! i)"
    by blast
  have l: "m_systList ex_alg = [nominal, SystematicSet ''TAUS_TES_TOTAL_1up'']"
    by (simp add: ex_alg_def)
  have "manifest = [[], ''TAUS_TES_TOTAL_1up'']"
    using m(2,3) unfolding l
    by (auto simp: nominal_def nth_Cons' list_eq_iff_nth_eq)
  with m(1) ex_execute_status show ?thesis
    by (simp add: ex_alg_def ex_alg0_def)
qed

subsection \<open>C2\<close>

text \<open>
  C2, as amended. After a successful \<^verbatim>\<open>initialize\<close> and a successful \<^verbatim>\<open>execute\<close>, for
  every variation of the list the store holds the owning copied collection under
  \<^verbatim>\<open><base>ShallowCopy<variationName>\<close> and the read-only view over it under
  \<^verbatim>\<open><base><variationName>\<close>, where \<^verbatim>\<open><base>\<close> is the configured \<^verbatim>\<open>m_outContainerName\<close>.
  The theorem also says where the auxiliary store of the copy is recorded.
\<close>

theorem C2_published_names:
  assumes "initialize inSubset alg0 c0 = (SUCCESS, alg, ci)"
    and "execute alg srt c = (SUCCESS, alg', c')"
    and "s \<in> set (m_systList alg)"
  shows "\<exists>sc view.
           evtStore c' (m_outContainerName alg0 @ ''ShallowCopy'' @ name s) =
             Some (TauJetContainer OWN_ELEMENTS sc) \<and>
           evtStore c' (m_outContainerName alg0 @ ''ShallowCopyAux.'' @ name s) =
             Some (ShallowAuxContainer sc) \<and>
           evtStore c' (m_outContainerName alg0 @ name s) =
             Some (ConstDataVector VIEW_ELEMENTS view)"
proof -
  note i = initialize_SUCCESS_D [OF assms(1)]
  from assms(2,3) obtain inTaus where
    "evtStore c' (m_outSCContainerName alg @ name s) =
       Some (TauJetContainer OWN_ELEMENTS (syst_copy alg (tool c) inTaus s))"
    "evtStore c' (m_outSCAuxContainerName alg @ name s) =
       Some (ShallowAuxContainer (syst_copy alg (tool c) inTaus s))"
    "evtStore c' (m_outContainerName alg @ name s) =
       Some (ConstDataVector VIEW_ELEMENTS (syst_view alg srt (syst_copy alg (tool c) inTaus s)))"
    by (rule execute_SUCCESS_published)
  then show ?thesis by (simp add: i(1,2,3))
qed

theorem C2_published_names_witness:
  "fst (initialize ex_inSubset ex_alg0 ex_ctx) = SUCCESS \<and>
   fst (execute ex_alg insertion_sort ex_ctx) = SUCCESS \<and>
   m_outContainerName ex_alg0 = ''Out'' \<and>
   m_systList ex_alg = [nominal, SystematicSet ''TAUS_TES_TOTAL_1up''] \<and>
   (\<exists>sc view.
      evtStore (snd (snd (execute ex_alg insertion_sort ex_ctx))) ''OutShallowCopyTAUS_TES_TOTAL_1up'' =
        Some (TauJetContainer OWN_ELEMENTS sc) \<and>
      evtStore (snd (snd (execute ex_alg insertion_sort ex_ctx))) ''OutShallowCopyAux.TAUS_TES_TOTAL_1up'' =
        Some (ShallowAuxContainer sc) \<and>
      evtStore (snd (snd (execute ex_alg insertion_sort ex_ctx))) ''OutTAUS_TES_TOTAL_1up'' =
        Some (ConstDataVector VIEW_ELEMENTS view))"
proof -
  have mem: "SystematicSet ''TAUS_TES_TOTAL_1up'' \<in> set (m_systList ex_alg)"
    by (simp add: ex_alg_def)
  have n: "m_outContainerName ex_alg0 = ''Out''" by (simp add: ex_alg0_def)
  from C2_published_names [OF ex_initialize ex_execute mem]
  have "\<exists>sc view.
      evtStore (snd (snd (execute ex_alg insertion_sort ex_ctx))) ''OutShallowCopyTAUS_TES_TOTAL_1up'' =
        Some (TauJetContainer OWN_ELEMENTS sc) \<and>
      evtStore (snd (snd (execute ex_alg insertion_sort ex_ctx))) ''OutShallowCopyAux.TAUS_TES_TOTAL_1up'' =
        Some (ShallowAuxContainer sc) \<and>
      evtStore (snd (snd (execute ex_alg insertion_sort ex_ctx))) ''OutTAUS_TES_TOTAL_1up'' =
        Some (ConstDataVector VIEW_ELEMENTS view)"
    unfolding n by simp
  moreover have "m_systList ex_alg = [nominal, SystematicSet ''TAUS_TES_TOTAL_1up'']"
    by (simp add: ex_alg_def)
  ultimately show ?thesis
    using ex_execute_status n by (simp add: ex_initialize)
qed

text \<open>
  C2 as stated puts the owning collections under \<^verbatim>\<open><base><variationName>\<close>. In the
  scenario with the two variations and the base name \<^verbatim>\<open>Out\<close>, the keys \<^verbatim>\<open>Out\<close> and
  \<^verbatim>\<open>OutTAUS_TES_TOTAL_1up\<close> hold views; the owning collections are under
  \<^verbatim>\<open>OutShallowCopy\<close> and \<^verbatim>\<open>OutShallowCopyTAUS_TES_TOTAL_1up\<close>.
\<close>

theorem C2_base_name_counterexample:
  "fst (execute ex_alg insertion_sort ex_ctx) = SUCCESS \<and>
   m_outContainerName ex_alg = ''Out'' \<and>
   m_systList ex_alg = [nominal, SystematicSet ''TAUS_TES_TOTAL_1up''] \<and>
   evtStore (snd (snd (execute ex_alg insertion_sort ex_ctx))) ''Out'' =
     Some (ConstDataVector VIEW_ELEMENTS [0, 1, 2]) \<and>
   evtStore (snd (snd (execute ex_alg insertion_sort ex_ctx))) ''OutTAUS_TES_TOTAL_1up'' =
     Some (ConstDataVector VIEW_ELEMENTS [0, 1, 2]) \<and>
   \<not> is_owning_collection (evtStore (snd (snd (execute ex_alg insertion_sort ex_ctx))) ''Out'') \<and>
   \<not> is_owning_collection
       (evtStore (snd (snd (execute ex_alg insertion_sort ex_ctx))) ''OutTAUS_TES_TOTAL_1up'') \<and>
   is_owning_collection
       (evtStore (snd (snd (execute ex_alg insertion_sort ex_ctx))) ''OutShallowCopy'') \<and>
   is_owning_collection
       (evtStore (snd (snd (execute ex_alg insertion_sort ex_ctx)))
          ''OutShallowCopyTAUS_TES_TOTAL_1up'')"
  using ex_execute_status
  by (simp add: ex_store_Out ex_store_SC is_owning_collection_def)
     (simp add: ex_alg_def ex_alg0_def)

subsection \<open>C3\<close>

text \<open>
  C3. If the input collection is absent from the event store, \<^verbatim>\<open>execute\<close> returns
  FAILURE and leaves the store as it was: no owning collection, no auxiliary store, no
  view and no manifest is recorded. The tool is not touched either.
\<close>

theorem C3_missing_input:
  assumes "evtStore c (m_inContainerName alg) = None"
  shows "fst (execute alg srt c) = FAILURE \<and>
         evtStore (snd (snd (execute alg srt c))) = evtStore c \<and>
         tool (snd (snd (execute alg srt c))) = tool c"
  using assms by (simp add: execute_unfold retrieve_TauJetContainer_def)

theorem C3_missing_input_witness:
  "evtStore ex_ctx_missing (m_inContainerName ex_alg) = None \<and>
   fst (execute ex_alg insertion_sort ex_ctx_missing) = FAILURE \<and>
   evtStore (snd (snd (execute ex_alg insertion_sort ex_ctx_missing))) =
     [''EventInfo'' \<mapsto> EventInfo] \<and>
   dom (evtStore (snd (snd (execute ex_alg insertion_sort ex_ctx_missing)))) = {''EventInfo''}"
proof -
  have a: "evtStore ex_ctx_missing (m_inContainerName ex_alg) = None"
    by (simp add: ex_ctx_missing_def ex_defs)
  from C3_missing_input [OF a, of insertion_sort] a show ?thesis
    by (simp add: ex_ctx_missing_def)
qed

subsection \<open>C4\<close>




subsection \<open>C5\<close>

text \<open>
  C5. Let the tool refuse the variation \<open>s\<close> of the list. Then \<^verbatim>\<open>execute\<close> returns
  FAILURE, and what was in the store before is still in the store after. If moreover the
  inputs of the event are in the store and the iterations for the variations before \<open>s\<close>
  succeed, then \<^verbatim>\<open>execute\<close> stops at \<open>s\<close> with the error message of line 199, and the
  store it leaves is the store those iterations left: for each earlier variation the copy,
  its auxiliary store and its view are still there.
\<close>

theorem C5_configuration_failure:
  assumes "m_systList alg = L1 @ s # L2"
    and "configure (tool c) s \<noteq> SC_Ok"
  shows "fst (execute alg srt c) = FAILURE \<and>
     evtStore c \<subseteq>\<^sub>m evtStore (snd (snd (execute alg srt c))) \<and>
     (\<forall>inTaus vec1 c1.
        retrieve_EventInfo (evtStore c) (m_eventInfoContainerName alg) = SUCCESS \<and>
        retrieve_TauJetContainer (evtStore c) (m_inContainerName alg) = Some inTaus \<and>
        execute_loop alg srt inTaus L1 [] c = (SUCCESS, vec1, c1) \<longrightarrow>
        evtStore (snd (snd (execute alg srt c))) = evtStore c1 \<and>
        msgs (snd (snd (execute alg srt c))) =
          msgs c1 @ [(ERROR, ''Failed to configure TauSmearingTool for systematic '' @ name s)] \<and>
        (\<forall>s'\<in>set L1. \<exists>sc view.
           evtStore (snd (snd (execute alg srt c))) (m_outSCContainerName alg @ name s') =
             Some (TauJetContainer OWN_ELEMENTS sc) \<and>
           evtStore (snd (snd (execute alg srt c))) (m_outSCAuxContainerName alg @ name s') =
             Some (ShallowAuxContainer sc) \<and>
           evtStore (snd (snd (execute alg srt c))) (m_outContainerName alg @ name s') =
             Some (ConstDataVector VIEW_ELEMENTS view)))"
proof (intro conjI allI impI ballI)
  have "\<exists>s'\<in>set (m_systList alg). configure (tool c) s' \<noteq> SC_Ok"
    using assms by auto
  then show "fst (execute alg srt c) = FAILURE" by (rule execute_unsupported)
  show "evtStore c \<subseteq>\<^sub>m evtStore (snd (snd (execute alg srt c)))" by (rule execute_mono)
next
  fix inTaus vec1 c1
  assume a: "retrieve_EventInfo (evtStore c) (m_eventInfoContainerName alg) = SUCCESS \<and>
        retrieve_TauJetContainer (evtStore c) (m_inContainerName alg) = Some inTaus \<and>
        execute_loop alg srt inTaus L1 [] c = (SUCCESS, vec1, c1)"
  then have ev: "retrieve_EventInfo (evtStore c) (m_eventInfoContainerName alg) = SUCCESS"
    and inp: "retrieve_TauJetContainer (evtStore c) (m_inContainerName alg) = Some inTaus"
    and loop1: "execute_loop alg srt inTaus L1 [] c = (SUCCESS, vec1, c1)"
    by simp_all
  note S = execute_loop_SUCCESS [OF loop1]
  from S obtain x where "tool c1 = (tool c)\<lparr>appliedSystematic := x\<rparr>" by blast
  then have "configure (tool c1) s \<noteq> SC_Ok" using assms(2) by simp
  then have body: "execute_syst alg srt inTaus s c1 =
      (FAILURE, ANA_MSG ERROR (''Failed to configure TauSmearingTool for systematic '' @ name s) c1)"
    by (rule execute_syst_Unsupported)
  define cF where
    "cF = ANA_MSG ERROR (''Failed to configure TauSmearingTool for systematic '' @ name s) c1"
  have loop: "execute_loop alg srt inTaus (m_systList alg) [] c = (FAILURE, vec1 @ [name s], cF)"
    by (simp add: assms(1) execute_loop_append loop1 body cF_def)
  have ex: "execute alg srt c = (FAILURE, alg\<lparr>m_numEvent := m_numEvent alg + 1\<rparr>, cF)"
    by (simp add: execute_unfold ev inp loop)
  have st: "evtStore cF = evtStore c1" and ms: "msgs cF = msgs c1 @
      [(ERROR, ''Failed to configure TauSmearingTool for systematic '' @ name s)]"
    by (simp_all add: cF_def ANA_MSG_def)
  have r: "snd (snd (execute alg srt c)) = cF" by (simp add: ex)
  show "evtStore (snd (snd (execute alg srt c))) = evtStore c1" unfolding r by (rule st)
  show "msgs (snd (snd (execute alg srt c))) =
          msgs c1 @ [(ERROR, ''Failed to configure TauSmearingTool for systematic '' @ name s)]"
    unfolding r by (rule ms)
  fix s' assume "s' \<in> set L1"
  with S show "\<exists>sc view.
           evtStore (snd (snd (execute alg srt c))) (m_outSCContainerName alg @ name s') =
             Some (TauJetContainer OWN_ELEMENTS sc) \<and>
           evtStore (snd (snd (execute alg srt c))) (m_outSCAuxContainerName alg @ name s') =
             Some (ShallowAuxContainer sc) \<and>
           evtStore (snd (snd (execute alg srt c))) (m_outContainerName alg @ name s') =
             Some (ConstDataVector VIEW_ELEMENTS view)"
    unfolding r st by blast
qed

theorem C5_configuration_failure_witness:
  "m_systList ex_alg_bad =
     [nominal] @ SystematicSet ''TAUS_UNKNOWN'' # [SystematicSet ''TAUS_TES_TOTAL_1up''] \<and>
   configure (tool ex_ctx) (SystematicSet ''TAUS_UNKNOWN'') \<noteq> SC_Ok \<and>
   m_outputAlgoSystNames ex_alg_bad = ''Out'' \<and>
   fst (execute ex_alg_bad insertion_sort ex_ctx) = FAILURE \<and>
   evtStore (snd (snd (execute ex_alg_bad insertion_sort ex_ctx))) =
     evtStore (snd (snd (execute_loop ex_alg_bad insertion_sort (OWN_ELEMENTS, ex_taus)
                           [nominal] [] ex_ctx))) \<and>
   dom (evtStore (snd (snd (execute ex_alg_bad insertion_sort ex_ctx)))) =
     {''EventInfo'', ''TauJets'', ''OutShallowCopy'', ''OutShallowCopyAux.'', ''Out''} \<and>
   evtStore (snd (snd (execute ex_alg_bad insertion_sort ex_ctx))) ''Out'' =
     Some (ConstDataVector VIEW_ELEMENTS [0, 1, 2])"
proof -
  have l: "m_systList ex_alg_bad =
      [nominal] @ SystematicSet ''TAUS_UNKNOWN'' # [SystematicSet ''TAUS_TES_TOTAL_1up'']"
    by (simp add: ex_alg_bad_def)
  have u: "configure (tool ex_ctx) (SystematicSet ''TAUS_UNKNOWN'') \<noteq> SC_Ok"
    by (simp add: ex_defs)
  have ev: "retrieve_EventInfo (evtStore ex_ctx) (m_eventInfoContainerName ex_alg_bad) = SUCCESS"
    by (simp add: ex_alg_bad_def ex_defs retrieve_EventInfo_def)
  have inp: "retrieve_TauJetContainer (evtStore ex_ctx) (m_inContainerName ex_alg_bad) =
      Some (OWN_ELEMENTS, ex_taus)"
    by (simp add: ex_alg_bad_def ex_defs retrieve_TauJetContainer_def)
  note T = C5_configuration_failure [OF l u, of insertion_sort]
  from T have f: "fst (execute ex_alg_bad insertion_sort ex_ctx) = FAILURE" by blast
  from T ev inp ex_bad_prefix
  have e: "evtStore (snd (snd (execute ex_alg_bad insertion_sort ex_ctx))) =
     evtStore (snd (snd (execute_loop ex_alg_bad insertion_sort (OWN_ELEMENTS, ex_taus)
                           [nominal] [] ex_ctx)))"
    by blast
  have d: "dom (evtStore (snd (snd (execute ex_alg_bad insertion_sort ex_ctx)))) =
     {''EventInfo'', ''TauJets'', ''OutShallowCopy'', ''OutShallowCopyAux.'', ''Out''}"
    by (simp add: ex_alg_bad_def ex_defs run_defs ANA_MSG_def) auto
  have o: "evtStore (snd (snd (execute ex_alg_bad insertion_sort ex_ctx))) ''Out'' =
     Some (ConstDataVector VIEW_ELEMENTS [0, 1, 2])"
    by (simp add: ex_alg_bad_def ex_defs run_defs ANA_MSG_def upt_rec)
  have m: "m_outputAlgoSystNames ex_alg_bad = ''Out''" by (simp add: ex_alg_bad_def)
  from l u m f e d o show ?thesis by blast
qed

subsection \<open>C6\<close>

text \<open>
  C6, as amended. Let the event information and the input container be in the store, let
  the tool accept every variation of the list, and let the keys to be recorded be distinct
  and free. Then \<^verbatim>\<open>execute\<close> returns SUCCESS whatever codes the corrections return and
  whether or not the original object links can be set. What it logs is, per variation, one
  warning for each tau with a truth particle whose correction returned Error (none for a
  tau without truth particle), and one error if the links could not be set. A tau without
  truth particle is published with the kinematics of its original; a tau handed to the
  correction is published as the tool left it, whatever code the tool returned.
\<close>

theorem C6_nonfatal:
  assumes "retrieve_EventInfo (evtStore c) (m_eventInfoContainerName alg) = SUCCESS"
    and "retrieve_TauJetContainer (evtStore c) (m_inContainerName alg) = Some inTaus"
    and "\<forall>s\<in>set (m_systList alg). configure (tool c) s = SC_Ok"
    and "distinct (out_keys alg (m_systList alg) @ [m_outputAlgoSystNames alg])"
    and "set (out_keys alg (m_systList alg) @ [m_outputAlgoSystNames alg]) \<inter> dom (evtStore c) = {}"
  shows "\<exists>alg' c'.
     execute alg srt c = (SUCCESS, alg', c') \<and>
     msgs c' = msgs c @
       concat (map (\<lambda>s.
         (if isMC alg
          then [(WARNING, ''TauSmearingTool returned Error CorrectionCode'').
                  tau \<leftarrow> snd inTaus, getTruthParticle tau \<noteq> None,
                  fst (correction (tool c) s tau) = CC_Error]
          else []) @
         (if fst inTaus = VIEW_ELEMENTS
          then [(ERROR, ''Failed to set original object links -- MET rebuilding cannot proceed.'')]
          else [])) (m_systList alg)) \<and>
     (\<forall>s\<in>set (m_systList alg). \<exists>sc.
        evtStore c' (m_outSCContainerName alg @ name s) = Some (TauJetContainer OWN_ELEMENTS sc) \<and>
        length sc = length (snd inTaus) \<and>
        (\<forall>i<length sc.
           (getTruthParticle (snd inTaus ! i) = None \<longrightarrow> p4 (sc ! i) = p4 (snd inTaus ! i)) \<and>
           (isMC alg \<and> getTruthParticle (snd inTaus ! i) \<noteq> None \<longrightarrow>
              p4 (sc ! i) = p4 (snd (correction (tool c) s (snd inTaus ! i))))))"
proof -
  let ?L = "m_systList alg"
  from assms(4) have d: "distinct (out_keys alg ?L)" by simp
  from assms(5) have f: "set (out_keys alg ?L) \<inter> dom (evtStore c) = {}" by auto
  from execute_loop_fresh [OF assms(3) d f, of srt inTaus "[]"]
  obtain c1 where loop: "execute_loop alg srt inTaus ?L [] c = (SUCCESS, map name ?L, c1)"
    by auto
  note S = execute_loop_SUCCESS [OF loop]
  from S have dom1: "dom (evtStore c1) = dom (evtStore c) \<union> set (out_keys alg ?L)" by blast
  have free: "evtStore c1 (m_outputAlgoSystNames alg) = None"
  proof -
    have "m_outputAlgoSystNames alg \<notin> dom (evtStore c)" using assms(5) by auto
    moreover have "m_outputAlgoSystNames alg \<notin> set (out_keys alg ?L)" using assms(4) by auto
    ultimately have "m_outputAlgoSystNames alg \<notin> dom (evtStore c1)" unfolding dom1 by simp
    then show ?thesis by auto
  qed
  define cS where
    "cS = c1\<lparr>evtStore := (evtStore c1)(m_outputAlgoSystNames alg \<mapsto> StringVector (map name ?L))\<rparr>"
  have ex: "execute alg srt c = (SUCCESS, alg\<lparr>m_numEvent := m_numEvent alg + 1\<rparr>, cS)"
    by (simp add: execute_unfold assms(1,2) loop free cS_def)
  have keep: "evtStore cS k = evtStore c1 k" if "evtStore c1 k \<noteq> None" for k
    using that free by (auto simp: cS_def)
  have m: "msgs cS = msgs c @ concat (map (syst_msgs alg (tool c) inTaus) ?L)"
    using S by (simp add: cS_def)
  have msgs: "msgs cS = msgs c @
       concat (map (\<lambda>s.
         (if isMC alg
          then [(WARNING, ''TauSmearingTool returned Error CorrectionCode'').
                  tau \<leftarrow> snd inTaus, getTruthParticle tau \<noteq> None,
                  fst (correction (tool c) s tau) = CC_Error]
          else []) @
         (if fst inTaus = VIEW_ELEMENTS
          then [(ERROR, ''Failed to set original object links -- MET rebuilding cannot proceed.'')]
          else [])) ?L)"
    unfolding m syst_msgs_eq ..
  have objs: "\<forall>s\<in>set ?L. \<exists>sc.
        evtStore cS (m_outSCContainerName alg @ name s) = Some (TauJetContainer OWN_ELEMENTS sc) \<and>
        length sc = length (snd inTaus) \<and>
        (\<forall>i<length sc.
           (getTruthParticle (snd inTaus ! i) = None \<longrightarrow> p4 (sc ! i) = p4 (snd inTaus ! i)) \<and>
           (isMC alg \<and> getTruthParticle (snd inTaus ! i) \<noteq> None \<longrightarrow>
              p4 (sc ! i) = p4 (snd (correction (tool c) s (snd inTaus ! i)))))"
  proof
    fix s assume s: "s \<in> set ?L"
    let ?sc = "syst_copy alg (tool c) inTaus s"
    from S s have "evtStore c1 (m_outSCContainerName alg @ name s) =
        Some (TauJetContainer OWN_ELEMENTS ?sc)" by blast
    then have 1: "evtStore cS (m_outSCContainerName alg @ name s) =
        Some (TauJetContainer OWN_ELEMENTS ?sc)" using keep by simp
    have 2: "length ?sc = length (snd inTaus)" by (rule length_syst_copy)
    have 3: "\<forall>i<length ?sc.
           (getTruthParticle (snd inTaus ! i) = None \<longrightarrow> p4 (?sc ! i) = p4 (snd inTaus ! i)) \<and>
           (isMC alg \<and> getTruthParticle (snd inTaus ! i) \<noteq> None \<longrightarrow>
              p4 (?sc ! i) = p4 (snd (correction (tool c) s (snd inTaus ! i))))"
      unfolding 2 by (simp add: nth_syst_copy Let_def)
    from 1 2 3 show "\<exists>sc.
        evtStore cS (m_outSCContainerName alg @ name s) = Some (TauJetContainer OWN_ELEMENTS sc) \<and>
        length sc = length (snd inTaus) \<and>
        (\<forall>i<length sc.
           (getTruthParticle (snd inTaus ! i) = None \<longrightarrow> p4 (sc ! i) = p4 (snd inTaus ! i)) \<and>
           (isMC alg \<and> getTruthParticle (snd inTaus ! i) \<noteq> None \<longrightarrow>
              p4 (sc ! i) = p4 (snd (correction (tool c) s (snd inTaus ! i)))))"
      by blast
  qed
  from ex msgs objs show ?thesis by blast
qed


theorem C6_nonfatal_witness:
  "retrieve_TauJetContainer (evtStore ex_ctx_view) (m_inContainerName ex_alg) =
     Some (VIEW_ELEMENTS, ex_taus) \<and>
   fst (execute ex_alg insertion_sort ex_ctx_view) = SUCCESS \<and>
   msgs (snd (snd (execute ex_alg insertion_sort ex_ctx_view))) =
     [(WARNING, ''TauSmearingTool returned Error CorrectionCode''),
      (ERROR, ''Failed to set original object links -- MET rebuilding cannot proceed.''),
      (WARNING, ''TauSmearingTool returned Error CorrectionCode''),
      (ERROR, ''Failed to set original object links -- MET rebuilding cannot proceed.'')]"
proof -
  have 1: "retrieve_EventInfo (evtStore ex_ctx_view) (m_eventInfoContainerName ex_alg) = SUCCESS"
    by (simp add: ex_ctx_view_def ex_defs retrieve_EventInfo_def)
  have 2: "retrieve_TauJetContainer (evtStore ex_ctx_view) (m_inContainerName ex_alg) =
      Some (VIEW_ELEMENTS, ex_taus)"
    by (simp add: ex_ctx_view_def ex_defs retrieve_TauJetContainer_def)
  have 3: "\<forall>s\<in>set (m_systList ex_alg). configure (tool ex_ctx_view) s = SC_Ok"
    by (simp add: ex_ctx_view_def ex_defs)
  have 4: "distinct (out_keys ex_alg (m_systList ex_alg) @ [m_outputAlgoSystNames ex_alg])"
    unfolding ex_keys by (simp add: ex_alg_def ex_alg0_def)
  have 5: "set (out_keys ex_alg (m_systList ex_alg) @ [m_outputAlgoSystNames ex_alg]) \<inter>
      dom (evtStore ex_ctx_view) = {}"
    unfolding ex_keys by (simp add: ex_alg_def ex_alg0_def ex_ctx_view_def ex_ctx_def)
  from C6_nonfatal [OF 1 2 3 4 5, of insertion_sort]
  obtain alg' c' where
    e: "execute ex_alg insertion_sort ex_ctx_view = (SUCCESS, alg', c')" and
    m: "msgs c' = msgs ex_ctx_view @
       concat (map (\<lambda>s.
         (if isMC ex_alg
          then [(WARNING, ''TauSmearingTool returned Error CorrectionCode'').
                  tau \<leftarrow> snd (VIEW_ELEMENTS, ex_taus), getTruthParticle tau \<noteq> None,
                  fst (correction (tool ex_ctx_view) s tau) = CC_Error]
          else []) @
         (if fst (VIEW_ELEMENTS, ex_taus) = VIEW_ELEMENTS
          then [(ERROR, ''Failed to set original object links -- MET rebuilding cannot proceed.'')]
          else [])) (m_systList ex_alg))"
    by blast
  have "msgs c' =
     [(WARNING, ''TauSmearingTool returned Error CorrectionCode''),
      (ERROR, ''Failed to set original object links -- MET rebuilding cannot proceed.''),
      (WARNING, ''TauSmearingTool returned Error CorrectionCode''),
      (ERROR, ''Failed to set original object links -- MET rebuilding cannot proceed.'')]"
    unfolding m by (simp add: ex_ctx_view_def ex_defs isMC_def getTruthParticle_def)
  with e 2 show ?thesis by simp
qed

text \<open>
  C6 as stated has the tau of a failed correction left uncorrected. With a tool that sets
  the transverse momentum to zero and answers Error, \<^verbatim>\<open>execute\<close> succeeds and publishes
  the baseline copy of the first tau with transverse momentum zero, not the 30000 of its
  original: lines 220 to 222 log the warning and do not restore the tau.
\<close>

theorem C6_uncorrected_counterexample:
  "retrieve_EventInfo (evtStore ex_ctx_err) (m_eventInfoContainerName ex_alg) = SUCCESS \<and>
   retrieve_TauJetContainer (evtStore ex_ctx_err) (m_inContainerName ex_alg) =
     Some (OWN_ELEMENTS, ex_taus) \<and>
   configure (tool ex_ctx_err) nominal = SC_Ok \<and>
   configure (tool ex_ctx_err) (SystematicSet ''TAUS_TES_TOTAL_1up'') = SC_Ok \<and>
   m_systList ex_alg = [nominal, SystematicSet ''TAUS_TES_TOTAL_1up''] \<and>
   distinct (out_keys ex_alg (m_systList ex_alg) @ [m_outputAlgoSystNames ex_alg]) \<and>
   set (out_keys ex_alg (m_systList ex_alg) @ [m_outputAlgoSystNames ex_alg]) \<inter>
     dom (evtStore ex_ctx_err) = {} \<and>
   isMC ex_alg \<and>
   getTruthParticle (ex_taus ! 0) = Some 0 \<and>
   fst (correction (tool ex_ctx_err) nominal (ex_taus ! 0)) = CC_Error \<and>
   pt (ex_taus ! 0) = 30000 \<and>
   fst (execute ex_alg insertion_sort ex_ctx_err) = SUCCESS \<and>
   evtStore (snd (snd (execute ex_alg insertion_sort ex_ctx_err))) ''OutShallowCopy'' =
     Some (TauJetContainer OWN_ELEMENTS
       [\<lparr>pt = 0, eta = 1/2, phi = 1, mass = 1777,
         truthParticleLink = Some 0, originalObjectLink = Some 0\<rparr>,
        \<lparr>pt = 45000, eta = -1, phi = 2, mass = 1777,
         truthParticleLink = None, originalObjectLink = Some 1\<rparr>,
        \<lparr>pt = 0, eta = 2, phi = 3, mass = 1777,
         truthParticleLink = Some 2, originalObjectLink = Some 2\<rparr>])"
proof -
  have 1: "retrieve_EventInfo (evtStore ex_ctx_err) (m_eventInfoContainerName ex_alg) = SUCCESS"
    by (simp add: ex_defs retrieve_EventInfo_def)
  have 2: "retrieve_TauJetContainer (evtStore ex_ctx_err) (m_inContainerName ex_alg) =
     Some (OWN_ELEMENTS, ex_taus)"
    by (simp add: ex_defs retrieve_TauJetContainer_def)
  have 3: "configure (tool ex_ctx_err) nominal = SC_Ok"
     "configure (tool ex_ctx_err) (SystematicSet ''TAUS_TES_TOTAL_1up'') = SC_Ok"
     "m_systList ex_alg = [nominal, SystematicSet ''TAUS_TES_TOTAL_1up'']"
    by (simp_all add: ex_ctx_err_def ex_tool_err_def ex_ctx_def ex_alg_def)
  have 4: "distinct (out_keys ex_alg (m_systList ex_alg) @ [m_outputAlgoSystNames ex_alg])"
    unfolding ex_keys by (simp add: ex_alg_def ex_alg0_def)
  have 5: "set (out_keys ex_alg (m_systList ex_alg) @ [m_outputAlgoSystNames ex_alg]) \<inter>
      dom (evtStore ex_ctx_err) = {}"
    unfolding ex_keys by (simp add: ex_alg_def ex_alg0_def ex_ctx_err_def ex_ctx_def ex_store_def)
  have 6: "isMC ex_alg" "getTruthParticle (ex_taus ! 0) = Some 0"
     "fst (correction (tool ex_ctx_err) nominal (ex_taus ! 0)) = CC_Error"
     "pt (ex_taus ! 0) = 30000"
    by (simp_all add: isMC_def getTruthParticle_def ex_defs)
  have 7: "fst (execute ex_alg insertion_sort ex_ctx_err) = SUCCESS"
    by (simp add: ex_defs run_defs)
  have 8: "evtStore (snd (snd (execute ex_alg insertion_sort ex_ctx_err))) ''OutShallowCopy'' =
     Some (TauJetContainer OWN_ELEMENTS
       [\<lparr>pt = 0, eta = 1/2, phi = 1, mass = 1777,
         truthParticleLink = Some 0, originalObjectLink = Some 0\<rparr>,
        \<lparr>pt = 45000, eta = -1, phi = 2, mass = 1777,
         truthParticleLink = None, originalObjectLink = Some 1\<rparr>,
        \<lparr>pt = 0, eta = 2, phi = 3, mass = 1777,
         truthParticleLink = Some 2, originalObjectLink = Some 2\<rparr>])"
    by (simp add: ex_defs run_defs upt_rec)
  from 1 2 3 4 5 6 7 8 show ?thesis by blast
qed

subsection \<open>C7\<close>

text \<open>
  C7. For an input collection of \<open>N\<close> taus and every variation of a successful event, the
  published copy has \<open>N\<close> entries and the published view at most \<open>N\<close> (sorting, if
  requested, by a \<^verbatim>\<open>std::sort\<close> that keeps its contract). The original object links can
  be set exactly when the input container owns its elements; then the copy at position
  \<open>i\<close> is linked to the input at position \<open>i\<close>, the entries of the view are linked to
  distinct positions of the input, and without sorting the links of the view are
  \<open>0, 1, \<dots>, N - 1\<close> in this order.
\<close>

theorem C7_size_and_links:
  assumes "execute alg srt c = (SUCCESS, alg', c')"
    and "retrieve_TauJetContainer (evtStore c) (m_inContainerName alg) = Some inTaus"
    and "s \<in> set (m_systList alg)"
    and "m_sort alg \<Longrightarrow> std_sort_contract srt"
  shows "\<exists>sc view.
     evtStore c' (m_outSCContainerName alg @ name s) = Some (TauJetContainer OWN_ELEMENTS sc) \<and>
     evtStore c' (m_outContainerName alg @ name s) = Some (ConstDataVector VIEW_ELEMENTS view) \<and>
     length sc = length (snd inTaus) \<and> length view \<le> length (snd inTaus) \<and>
     fst (setOriginalObjectLink inTaus sc) = (fst inTaus = OWN_ELEMENTS) \<and>
     (fst inTaus = OWN_ELEMENTS \<longrightarrow>
        (\<forall>i<length sc. originalObjectLink (sc ! i) = Some i) \<and>
        map originalObjectLink (deref sc view) = map Some view \<and>
        set view \<subseteq> {..<length (snd inTaus)} \<and>
        distinct (map originalObjectLink (deref sc view)) \<and>
        (\<not> m_sort alg \<longrightarrow>
           map originalObjectLink (deref sc view) = map Some [0..<length (snd inTaus)]))"
proof -
  from assms(1,3) obtain inTaus' where
    r: "retrieve_TauJetContainer (evtStore c) (m_inContainerName alg) = Some inTaus'" and
    p1: "evtStore c' (m_outSCContainerName alg @ name s) =
       Some (TauJetContainer OWN_ELEMENTS (syst_copy alg (tool c) inTaus' s))" and
    p3: "evtStore c' (m_outContainerName alg @ name s) =
       Some (ConstDataVector VIEW_ELEMENTS (syst_view alg srt (syst_copy alg (tool c) inTaus' s)))"
    by (rule execute_SUCCESS_published)
  from r assms(2) have [simp]: "inTaus' = inTaus" by simp
  define sc where "sc = syst_copy alg (tool c) inTaus s"
  define view where "view = syst_view alg srt sc"
  have len: "length sc = length (snd inTaus)" by (simp add: sc_def length_syst_copy)
  have perm: "mset view = mset [0..<length sc]"
    unfolding view_def using assms(4) by (rule syst_view_props)
  have lv: "length view = length (snd inTaus)"
    using mset_eq_length [OF perm] len by simp
  have sv: "set view = {..<length (snd inTaus)}"
    using mset_eq_setD [OF perm] len by (simp add: atLeast0LessThan)
  have dv: "distinct view"
    using mset_eq_imp_distinct_iff [OF perm] by simp
  have ok: "fst (setOriginalObjectLink inTaus sc) = (fst inTaus = OWN_ELEMENTS)"
    by (simp add: setOriginalObjectLink_def len OwnershipPolicy_not_VIEW)
  have links: "fst inTaus = OWN_ELEMENTS \<longrightarrow>
        (\<forall>i<length sc. originalObjectLink (sc ! i) = Some i) \<and>
        map originalObjectLink (deref sc view) = map Some view \<and>
        set view \<subseteq> {..<length (snd inTaus)} \<and>
        distinct (map originalObjectLink (deref sc view)) \<and>
        (\<not> m_sort alg \<longrightarrow>
           map originalObjectLink (deref sc view) = map Some [0..<length (snd inTaus)])"
  proof
    assume own: "fst inTaus = OWN_ELEMENTS"
    have l: "originalObjectLink (sc ! i) = Some i" if "i < length (snd inTaus)" for i
      unfolding sc_def using own that by (rule link_syst_copy)
    have m: "map originalObjectLink (deref sc view) = map Some view"
      using sv l by (auto simp: deref_def)
    have d: "distinct (map originalObjectLink (deref sc view))"
      unfolding m using dv by (simp add: distinct_map)
    have u: "\<not> m_sort alg \<longrightarrow>
        map originalObjectLink (deref sc view) = map Some [0..<length (snd inTaus)]"
    proof
      assume "\<not> m_sort alg"
      then have "view = [0..<length (snd inTaus)]"
        by (simp add: view_def syst_view_unsorted len)
      with m show "map originalObjectLink (deref sc view) = map Some [0..<length (snd inTaus)]"
        by simp
    qed
    have l': "\<forall>i<length sc. originalObjectLink (sc ! i) = Some i"
      using l len by simp
    have sv': "set view \<subseteq> {..<length (snd inTaus)}" using sv by simp
    from l' m d u sv' show "(\<forall>i<length sc. originalObjectLink (sc ! i) = Some i) \<and>
        map originalObjectLink (deref sc view) = map Some view \<and>
        set view \<subseteq> {..<length (snd inTaus)} \<and>
        distinct (map originalObjectLink (deref sc view)) \<and>
        (\<not> m_sort alg \<longrightarrow>
           map originalObjectLink (deref sc view) = map Some [0..<length (snd inTaus)])"
      by blast
  qed
  have "evtStore c' (m_outSCContainerName alg @ name s) = Some (TauJetContainer OWN_ELEMENTS sc)"
    using p1 by (simp add: sc_def)
  moreover have "evtStore c' (m_outContainerName alg @ name s) =
      Some (ConstDataVector VIEW_ELEMENTS view)"
    using p3 by (simp add: sc_def view_def)
  moreover have "length view \<le> length (snd inTaus)" using lv by simp
  ultimately show ?thesis using len ok links by blast
qed

theorem C7_size_and_links_witness:
  "fst (execute ex_alg_sort insertion_sort ex_ctx) = SUCCESS \<and>
   retrieve_TauJetContainer (evtStore ex_ctx) (m_inContainerName ex_alg_sort) =
     Some (OWN_ELEMENTS, ex_taus) \<and>
   (\<exists>sc view.
      evtStore (snd (snd (execute ex_alg_sort insertion_sort ex_ctx))) ''OutShallowCopy'' =
        Some (TauJetContainer OWN_ELEMENTS sc) \<and>
      evtStore (snd (snd (execute ex_alg_sort insertion_sort ex_ctx))) ''Out'' =
        Some (ConstDataVector VIEW_ELEMENTS view) \<and>
      length sc = 3 \<and> view = [1, 0, 2] \<and>
      map originalObjectLink (deref sc view) = [Some 1, Some 0, Some 2])"
proof -
  have r: "retrieve_TauJetContainer (evtStore ex_ctx) (m_inContainerName ex_alg_sort) =
     Some (OWN_ELEMENTS, ex_taus)"
    by (simp add: ex_defs retrieve_TauJetContainer_def)
  have mem: "nominal \<in> set (m_systList ex_alg_sort)" by (simp add: ex_defs)
  have k1: "m_outSCContainerName ex_alg_sort @ name nominal = ''OutShallowCopy''"
    and k3: "m_outContainerName ex_alg_sort @ name nominal = ''Out''"
    by (simp_all add: ex_defs)
  from C7_size_and_links [OF ex_sort_execute r mem insertion_sort_contract]
  obtain sc view where
    1: "evtStore (snd (snd (execute ex_alg_sort insertion_sort ex_ctx))) ''OutShallowCopy'' =
        Some (TauJetContainer OWN_ELEMENTS sc)" and
    2: "evtStore (snd (snd (execute ex_alg_sort insertion_sort ex_ctx))) ''Out'' =
        Some (ConstDataVector VIEW_ELEMENTS view)" and
    3: "length sc = length (snd (OWN_ELEMENTS, ex_taus))" and
    4: "map originalObjectLink (deref sc view) = map Some view"
    unfolding k1 k3 by auto
  from 2 have v: "view = [1, 0, 2]" by (simp add: ex_sort_view)
  from 3 have "length sc = 3" by (simp add: ex_taus_def)
  moreover from 4 have "map originalObjectLink (deref sc view) = [Some 1, Some 0, Some 2]"
    by (simp add: v)
  ultimately have "\<exists>sc view.
      evtStore (snd (snd (execute ex_alg_sort insertion_sort ex_ctx))) ''OutShallowCopy'' =
        Some (TauJetContainer OWN_ELEMENTS sc) \<and>
      evtStore (snd (snd (execute ex_alg_sort insertion_sort ex_ctx))) ''Out'' =
        Some (ConstDataVector VIEW_ELEMENTS view) \<and>
      length sc = 3 \<and> view = [1, 0, 2] \<and>
      map originalObjectLink (deref sc view) = [Some 1, Some 0, Some 2]"
    using 1 2 v by (intro exI [of _ sc] exI [of _ view]) simp
  with r ex_sort_status show ?thesis by simp
qed

subsection \<open>C8\<close>

text \<open>
  C8. Processing the same event twice gives the same status and the same store, hence the
  same published collections, auxiliary stores, views and manifest. The second run starts
  from the store of the event as it was before the first run, and from the algorithm and
  the tool as the first run left them: the event counter has moved and the tool is
  configured for the last variation it accepted. The tool is deterministic: its correction
  is a function of the active variation and the tau.
\<close>

theorem C8_deterministic:
  assumes "execute alg srt c = (st1, alg1, c1)"
    and "execute alg1 srt (c1\<lparr>evtStore := evtStore c\<rparr>) = (st2, alg2, c2)"
  shows "st2 = st1 \<and> evtStore c2 = evtStore c1"
proof -
  from assms(1) execute_alg [of alg srt c]
  have a1: "alg1 = alg\<lparr>m_numEvent := m_numEvent alg + 1\<rparr>" by simp
  from assms(1) execute_tool [of alg srt c]
  obtain x where t1: "tool c1 = (tool c)\<lparr>appliedSystematic := x\<rparr>" by auto
  have "evtStore (c1\<lparr>evtStore := evtStore c\<rparr>) = evtStore c"
    and "tool (c1\<lparr>evtStore := evtStore c\<rparr>) = (tool c)\<lparr>appliedSystematic := x\<rparr>"
    by (simp_all add: t1)
  from execute_indep [OF this, where alg = alg and n = "m_numEvent alg + 1" and srt = srt] assms
  show ?thesis by (simp add: a1)
qed

theorem C8_deterministic_witness:
  "fst (execute ex_alg insertion_sort ex_ctx) = SUCCESS \<and>
   fst (execute (fst (snd (execute ex_alg insertion_sort ex_ctx))) insertion_sort
          ((snd (snd (execute ex_alg insertion_sort ex_ctx)))\<lparr>evtStore := evtStore ex_ctx\<rparr>)) = SUCCESS \<and>
   evtStore (snd (snd (execute (fst (snd (execute ex_alg insertion_sort ex_ctx))) insertion_sort
          ((snd (snd (execute ex_alg insertion_sort ex_ctx)))\<lparr>evtStore := evtStore ex_ctx\<rparr>)))) =
   evtStore (snd (snd (execute ex_alg insertion_sort ex_ctx))) \<and>
   m_numEvent (fst (snd (execute ex_alg insertion_sort ex_ctx))) = 1 \<and>
   appliedSystematic (tool (snd (snd (execute ex_alg insertion_sort ex_ctx)))) =
     SystematicSet ''TAUS_TES_TOTAL_1up''"
proof -
  let ?r1 = "execute ex_alg insertion_sort ex_ctx"
  let ?r2 = "execute (fst (snd ?r1)) insertion_sort ((snd (snd ?r1))\<lparr>evtStore := evtStore ex_ctx\<rparr>)"
  have 2: "?r2 = (fst ?r2, fst (snd ?r2), snd (snd ?r2))" by simp
  from C8_deterministic [OF ex_execute 2]
  have "fst ?r2 = SUCCESS \<and> evtStore (snd (snd ?r2)) = evtStore (snd (snd ?r1))" .
  moreover have "m_numEvent (fst (snd ?r1)) = 1"
    by (simp add: execute_alg ex_alg_def ex_alg0_def)
  moreover have "appliedSystematic (tool (snd (snd ?r1))) = SystematicSet ''TAUS_TES_TOTAL_1up''"
    by (simp add: ex_defs run_defs)
  ultimately show ?thesis using ex_execute_status by simp
qed

subsection \<open>C9\<close>

text \<open>
  C9. The variation list that \<^verbatim>\<open>initialize\<close> computes starts with the baseline, whose name
  is empty; so every successful event publishes the baseline's copy and, under the base
  name with the empty suffix, its view. The list is computed by \<open>getListofSystematics\<close>,
  which is modelled from the spec.
\<close>

theorem C9_baseline:
  assumes "initialize inSubset alg0 c0 = (SUCCESS, alg, ci)"
    and "execute alg srt c = (SUCCESS, alg', c')"
  shows "hd (m_systList alg) = nominal \<and> nominal \<in> set (m_systList alg) \<and> name nominal = [] \<and>
         (\<exists>sc view.
            evtStore c' (m_outContainerName alg0 @ ''ShallowCopy'') =
              Some (TauJetContainer OWN_ELEMENTS sc) \<and>
            evtStore c' (m_outContainerName alg0) = Some (ConstDataVector VIEW_ELEMENTS view))"
proof -
  note i = initialize_SUCCESS_D [OF assms(1)]
  have mem: "nominal \<in> set (m_systList alg)"
    unfolding i(6) by (rule nominal_in_getListofSystematics)
  have hd: "hd (m_systList alg) = nominal"
    unfolding i(6) by (simp add: getListofSystematics_def)
  from assms(2) mem obtain inTaus where
    "evtStore c' (m_outSCContainerName alg @ name nominal) =
       Some (TauJetContainer OWN_ELEMENTS (syst_copy alg (tool c) inTaus nominal))"
    "evtStore c' (m_outContainerName alg @ name nominal) =
       Some (ConstDataVector VIEW_ELEMENTS (syst_view alg srt (syst_copy alg (tool c) inTaus nominal)))"
    by (rule execute_SUCCESS_published)
  then have "\<exists>sc view.
            evtStore c' (m_outContainerName alg0 @ ''ShallowCopy'') =
              Some (TauJetContainer OWN_ELEMENTS sc) \<and>
            evtStore c' (m_outContainerName alg0) = Some (ConstDataVector VIEW_ELEMENTS view)"
    by (simp add: i(1,2) nominal_def)
  with mem hd show ?thesis by (simp add: nominal_def)
qed

theorem C9_baseline_witness:
  "fst (initialize ex_inSubset ex_alg0 ex_ctx) = SUCCESS \<and>
   fst (execute ex_alg insertion_sort ex_ctx) = SUCCESS \<and>
   hd (m_systList ex_alg) = nominal \<and>
   evtStore (snd (snd (execute ex_alg insertion_sort ex_ctx))) ''Out'' =
     Some (ConstDataVector VIEW_ELEMENTS [0, 1, 2])"
  using C9_baseline [OF ex_initialize ex_execute] ex_execute_status
  by (simp add: ex_initialize ex_store_Out)

subsection \<open>C10\<close>

text \<open>
  C10. With simulation mode off, for every variation of a successful event each published
  copy is its input tau, but for the original object link it gets when the links can be
  set: kinematics and truth link are those of the input. The correction of the tool is
  never applied: with any other correction in its place \<^verbatim>\<open>execute\<close> returns the same
  status, algorithm, store and messages.
\<close>

theorem C10_real_data_untouched:
  assumes "\<not> isMC alg"
    and "execute alg srt c = (SUCCESS, alg', c')"
    and "retrieve_TauJetContainer (evtStore c) (m_inContainerName alg) = Some inTaus"
    and "s \<in> set (m_systList alg)"
  shows "(\<exists>sc.
            evtStore c' (m_outSCContainerName alg @ name s) = Some (TauJetContainer OWN_ELEMENTS sc) \<and>
            evtStore c' (m_outSCAuxContainerName alg @ name s) = Some (ShallowAuxContainer sc) \<and>
            length sc = length (snd inTaus) \<and>
            map p4 sc = map p4 (snd inTaus) \<and>
            map truthParticleLink sc = map truthParticleLink (snd inTaus) \<and>
            (\<forall>i<length sc.
               sc ! i = (if fst inTaus = VIEW_ELEMENTS then snd inTaus ! i
                         else (snd inTaus ! i)\<lparr>originalObjectLink := Some i\<rparr>))) \<and>
         (\<forall>f. execute alg srt (c\<lparr>tool := (tool c)\<lparr>correction := f\<rparr>\<rparr>) =
                (SUCCESS, alg', c'\<lparr>tool := (tool c')\<lparr>correction := f\<rparr>\<rparr>))"
proof -
  from assms(2,4) obtain inTaus' where
    r: "retrieve_TauJetContainer (evtStore c) (m_inContainerName alg) = Some inTaus'" and
    p1: "evtStore c' (m_outSCContainerName alg @ name s) =
       Some (TauJetContainer OWN_ELEMENTS (syst_copy alg (tool c) inTaus' s))" and
    p2: "evtStore c' (m_outSCAuxContainerName alg @ name s) =
       Some (ShallowAuxContainer (syst_copy alg (tool c) inTaus' s))"
    by (rule execute_SUCCESS_published)
  from r assms(3) have [simp]: "inTaus' = inTaus" by simp
  define sc where "sc = syst_copy alg (tool c) inTaus s"
  have sc: "sc = snd (setOriginalObjectLink inTaus (snd inTaus))"
    unfolding sc_def using assms(1) by (rule syst_copy_data)
  have len: "length sc = length (snd inTaus)" by (simp add: sc_def length_syst_copy)
  have k: "map p4 sc = map p4 (snd inTaus)" unfolding sc by (rule map_p4_link)
  have t: "map truthParticleLink sc = map truthParticleLink (snd inTaus)"
    unfolding sc by (rule truthParticleLink_link)
  have n: "\<forall>i<length sc.
      sc ! i = (if fst inTaus = VIEW_ELEMENTS then snd inTaus ! i
                else (snd inTaus ! i)\<lparr>originalObjectLink := Some i\<rparr>)"
    unfolding len by (simp add: sc nth_setOriginalObjectLink)
  have 1: "\<exists>sc.
            evtStore c' (m_outSCContainerName alg @ name s) = Some (TauJetContainer OWN_ELEMENTS sc) \<and>
            evtStore c' (m_outSCAuxContainerName alg @ name s) = Some (ShallowAuxContainer sc) \<and>
            length sc = length (snd inTaus) \<and>
            map p4 sc = map p4 (snd inTaus) \<and>
            map truthParticleLink sc = map truthParticleLink (snd inTaus) \<and>
            (\<forall>i<length sc.
               sc ! i = (if fst inTaus = VIEW_ELEMENTS then snd inTaus ! i
                         else (snd inTaus ! i)\<lparr>originalObjectLink := Some i\<rparr>))"
  proof -
    have "evtStore c' (m_outSCContainerName alg @ name s) = Some (TauJetContainer OWN_ELEMENTS sc)"
      using p1 by (simp add: sc_def)
    moreover have "evtStore c' (m_outSCAuxContainerName alg @ name s) = Some (ShallowAuxContainer sc)"
      using p2 by (simp add: sc_def)
    ultimately show ?thesis using len k t n by blast
  qed
  have 2: "\<forall>f. execute alg srt (c\<lparr>tool := (tool c)\<lparr>correction := f\<rparr>\<rparr>) =
                (SUCCESS, alg', c'\<lparr>tool := (tool c')\<lparr>correction := f\<rparr>\<rparr>)"
    by (simp add: execute_correction [OF assms(1)] assms(2))
  from 1 2 show ?thesis by blast
qed

theorem C10_real_data_untouched_witness:
  "\<not> isMC ex_alg_data \<and>
   fst (execute ex_alg_data insertion_sort ex_ctx) = SUCCESS \<and>
   SystematicSet ''TAUS_TES_TOTAL_1up'' \<in> set (m_systList ex_alg_data) \<and>
   (\<exists>sc. evtStore (snd (snd (execute ex_alg_data insertion_sort ex_ctx)))
            ''OutShallowCopyTAUS_TES_TOTAL_1up'' = Some (TauJetContainer OWN_ELEMENTS sc) \<and>
         map pt sc = [30000, 45000, 20000] \<and> map p4 sc = map p4 ex_taus)"
proof -
  have 1: "\<not> isMC ex_alg_data" by (simp add: isMC_def ex_alg_data_def)
  have 3: "retrieve_TauJetContainer (evtStore ex_ctx) (m_inContainerName ex_alg_data) =
      Some (OWN_ELEMENTS, ex_taus)"
    by (simp add: ex_alg_data_def ex_defs retrieve_TauJetContainer_def)
  have 4: "SystematicSet ''TAUS_TES_TOTAL_1up'' \<in> set (m_systList ex_alg_data)"
    by (simp add: ex_alg_data_def ex_defs)
  have k: "m_outSCContainerName ex_alg_data @ name (SystematicSet ''TAUS_TES_TOTAL_1up'') =
      ''OutShallowCopyTAUS_TES_TOTAL_1up''"
    by (simp add: ex_alg_data_def ex_defs)
  from C10_real_data_untouched [OF 1 ex_data_execute 3 4]
  obtain sc where
    a: "evtStore (snd (snd (execute ex_alg_data insertion_sort ex_ctx)))
            ''OutShallowCopyTAUS_TES_TOTAL_1up'' = Some (TauJetContainer OWN_ELEMENTS sc)" and
    b: "map p4 sc = map p4 (snd (OWN_ELEMENTS, ex_taus))"
    unfolding k by blast
  from b have b': "map p4 sc = map p4 ex_taus" by simp
  have "map (fst \<circ> p4) sc = map (fst \<circ> p4) ex_taus"
    using arg_cong [OF b', of "map fst"] by simp
  moreover have "fst \<circ> p4 = pt" by (simp add: fun_eq_iff p4_def)
  ultimately have "map pt sc = [30000, 45000, 20000]" by (simp add: ex_taus_def)
  with a b' have "\<exists>sc. evtStore (snd (snd (execute ex_alg_data insertion_sort ex_ctx)))
            ''OutShallowCopyTAUS_TES_TOTAL_1up'' = Some (TauJetContainer OWN_ELEMENTS sc) \<and>
         map pt sc = [30000, 45000, 20000] \<and> map p4 sc = map p4 ex_taus"
    by (intro exI [of _ sc]) simp
  with 1 4 ex_data_status show ?thesis by simp
qed

end
